theory Spec2Isabelle
  imports Complex_Main
begin

section \<open>Document model\<close>

text \<open>
  The validator works on documents produced by Python's \<^verbatim>\<open>json.load\<close>:
  \<^verbatim>\<open>None\<close>, booleans, numbers, strings, lists and dicts. A dict is kept as the list
  of its items in insertion order (the order \<^verbatim>\<open>dict.items()\<close> yields); a lookup
  reads the first item with the key. A number is kept by its exact value, which is all
  that Python's \<^verbatim>\<open>==\<close> and \<^verbatim>\<open>hash\<close> read of an \<^verbatim>\<open>int\<close> or a finite
  \<^verbatim>\<open>float\<close>; the non-standard JSON constants NaN and Infinity are outside the model.
\<close>

datatype json =
    JNull
  | JBool bool
  | JNum rat
  | JStr string
  | JArr "json list"
  | JObj "(string \<times> json) list"

text \<open>The exceptions the code under study can raise.\<close>

datatype py_error = MalformedExpression | TypeError | AttributeError

subsection \<open>Python built-ins used by the checks\<close>

text \<open>
  Python's \<^verbatim>\<open>==\<close> on loaded JSON values: \<^verbatim>\<open>True == 1\<close> and \<^verbatim>\<open>False == 0\<close>
  hold because \<^verbatim>\<open>bool\<close> is a subclass of \<^verbatim>\<open>int\<close>; lists are compared element
  by element; two dicts are equal when they have the same number of items and every key
  of the first is bound in the second to an equal value, whatever the insertion order.
\<close>

fun py_eq :: "json \<Rightarrow> json \<Rightarrow> bool"
  and py_eq_list :: "json list \<Rightarrow> json list \<Rightarrow> bool"
  and py_eq_items :: "(string \<times> json) list \<Rightarrow> (string \<times> json) list \<Rightarrow> bool" where
  "py_eq JNull b = (b = JNull)"
| "py_eq (JBool p) b =
     (case b of JBool q \<Rightarrow> p = q | JNum n \<Rightarrow> n = (if p then 1 else 0) | _ \<Rightarrow> False)"
| "py_eq (JNum m) b =
     (case b of JBool q \<Rightarrow> m = (if q then 1 else 0) | JNum n \<Rightarrow> m = n | _ \<Rightarrow> False)"
| "py_eq (JStr s) b = (b = JStr s)"
| "py_eq (JArr xs) b = (case b of JArr ys \<Rightarrow> py_eq_list xs ys | _ \<Rightarrow> False)"
| "py_eq (JObj kvs) b =
     (case b of JObj kws \<Rightarrow> length kvs = length kws \<and> py_eq_items kvs kws | _ \<Rightarrow> False)"
| "py_eq_list [] ys = (ys = [])"
| "py_eq_list (x # xs) ys =
     (case ys of [] \<Rightarrow> False | y # ys' \<Rightarrow> py_eq x y \<and> py_eq_list xs ys')"
| "py_eq_items [] kws = True"
| "py_eq_items (kv # kvs) kws =
     ((case map_of kws (fst kv) of None \<Rightarrow> False | Some w \<Rightarrow> py_eq (snd kv) w)
      \<and> py_eq_items kvs kws)"

text \<open>\<^verbatim>\<open>x in xs\<close> for a list \<^verbatim>\<open>xs\<close>: some item of the list equals \<^verbatim>\<open>x\<close>.\<close>

definition py_in :: "json \<Rightarrow> json list \<Rightarrow> bool" where
  "py_in x xs = list_ex (\<lambda>item. py_eq item x) xs"

text \<open>
  \<^verbatim>\<open>len(set(ids))\<close>: building the set hashes every element, and hashing a list or a
  dict raises \<^verbatim>\<open>TypeError\<close>. Hashable values that are equal under \<^verbatim>\<open>==\<close> are one
  element of the set; \<open>py_key\<close> picks one representative of each class.
\<close>

fun hashable :: "json \<Rightarrow> bool" where
  "hashable (JArr xs) = False"
| "hashable (JObj kvs) = False"
| "hashable v = True"

fun py_key :: "json \<Rightarrow> json" where
  "py_key (JBool p) = JNum (if p then 1 else 0)"
| "py_key v = v"

definition len_set :: "json list \<Rightarrow> py_error + nat" where
  "len_set ids =
     (if list_all hashable ids then Inr (length (remdups (map py_key ids)))
      else Inl TypeError)"

text \<open>
  \<^verbatim>\<open>rpd.get(key, default)\<close>: only a dict has the method; on any other value the
  attribute lookup raises \<^verbatim>\<open>AttributeError\<close>.
\<close>

definition dict_get :: "json \<Rightarrow> string \<Rightarrow> json \<Rightarrow> py_error + json" where
  "dict_get d key dflt =
     (case d of
        JObj kvs \<Rightarrow> Inr (case map_of kvs key of None \<Rightarrow> dflt | Some v \<Rightarrow> v)
      | _ \<Rightarrow> Inl AttributeError)"

text \<open>
  What \<^verbatim>\<open>enumerate(x)\<close> iterates over: the elements of a list, the keys of a dict,
  the one-character strings of a string; \<^verbatim>\<open>None\<close>, booleans and numbers are not
  iterable and raise \<^verbatim>\<open>TypeError\<close>.
\<close>

definition py_iter :: "json \<Rightarrow> py_error + json list" where
  "py_iter x =
     (case x of
        JArr xs \<Rightarrow> Inr xs
      | JObj kvs \<Rightarrow> Inr (map (\<lambda>kv. JStr (fst kv)) kvs)
      | JStr s \<Rightarrow> Inr (map (\<lambda>c. JStr [c]) s)
      | _ \<Rightarrow> Inl TypeError)"

text \<open>\<^verbatim>\<open>str(n)\<close> for an index \<^verbatim>\<open>n >= 0\<close>: its decimal digits.\<close>

fun str_nat :: "nat \<Rightarrow> string" where
  "str_nat n =
     (if n < 10 then [char_of (48 + n)]
      else str_nat (n div 10) @ [char_of (48 + n mod 10)])"

declare str_nat.simps [simp del]

text \<open>\<^verbatim>\<open>sep.join(xs)\<close>.\<close>

fun join :: "string \<Rightarrow> string list \<Rightarrow> string" where
  "join sep [] = []"
| "join sep [x] = x"
| "join sep (x # y # ys) = x @ sep @ join sep (y # ys)"

section \<open>Path expressions (module \<^verbatim>\<open>rpdvalidator.jsonpath_utils\<close>)\<close>

text \<open>
  \<^verbatim>\<open>validate.py\<close> imports \<^verbatim>\<open>find_all\<close>, \<^verbatim>\<open>find_all_by_jsonpaths\<close> and
  \<^verbatim>\<open>json_paths_to_lists\<close> from \<^verbatim>\<open>rpdvalidator.jsonpath_utils\<close>. That module
  is outside the code verified here; its functions are modelled from sections 3, 4.1, 4.2
  and 4.4 of the specification.
\<close>

text \<open>
  Modelled from the spec: the steps of a path expression (section 3), a type of the
  missing module. \<open>FieldStep name\<close> is the spec's \<^verbatim>\<open>Field(name)\<close>.
\<close>

datatype step = FieldStep string | Wildcard

text \<open>
  Modelled from the spec: the field step for the name read between two delimiters;
  nothing stands between two adjacent delimiters, as in \<^verbatim>\<open>[*].id\<close>.
\<close>

definition flush :: "string \<Rightarrow> step list" where
  "flush name = (if name = [] then [] else [FieldStep name])"

text \<open>
  Modelled from the spec: the parser of \<^verbatim>\<open>find_all\<close>, missing from the sources.
  Section 4.1: the text is split into steps on the delimiters \<^verbatim>\<open>.\<close> and \<^verbatim>\<open>[*]\<close>;
  \<^verbatim>\<open>[*]\<close> is a wildcard, everything else between delimiters is a field name, and any
  bracketed content other than \<^verbatim>\<open>*\<close> is a parse error. The first argument is the field
  name read so far.
\<close>

fun parse_steps :: "string \<Rightarrow> string \<Rightarrow> py_error + step list" where
  "parse_steps name [] = Inr (flush name)"
| "parse_steps name (c # cs) =
     (if c = CHR ''.'' then
        (case parse_steps [] cs of
           Inl e \<Rightarrow> Inl e
         | Inr steps \<Rightarrow> Inr (flush name @ steps))
      else if c = CHR ''['' then
        (if take 2 cs = ''*]'' then
           (case parse_steps [] (drop 2 cs) of
              Inl e \<Rightarrow> Inl e
            | Inr steps \<Rightarrow> Inr (flush name @ Wildcard # steps))
         else Inl MalformedExpression)
      else parse_steps (name @ [c]) cs)"

text \<open>
  Modelled from the spec: the paths written in \<^verbatim>\<open>validate.py\<close> start with the root
  marker \<^verbatim>\<open>$\<close> (the comment at line 376 reads: list_path starts with $ that must
  be removed), which selects the document itself and is no step.
\<close>

definition parse_expression :: "string \<Rightarrow> py_error + step list" where
  "parse_expression text =
     (case text of
        [] \<Rightarrow> parse_steps [] []
      | c # cs \<Rightarrow> if c = CHR ''$'' then parse_steps [] cs else parse_steps [] (c # cs))"

text \<open>
  Modelled from the spec: an expression is well-formed when its text parses (sections 6
  and 7).
\<close>

definition well_formed :: "string \<Rightarrow> bool" where
  "well_formed text = (case parse_expression text of Inl e \<Rightarrow> False | Inr steps \<Rightarrow> True)"

text \<open>
  Modelled from the spec: one step applied to one node (section 3). A field step
  selects the child of an object by name and matches nothing on another node or when the
  name is absent; a wildcard selects every element of an array, in index order, and
  matches nothing on another node.
\<close>

fun apply_step :: "step \<Rightarrow> json \<Rightarrow> json list" where
  "apply_step (FieldStep name) (JObj kvs) =
     (case map_of kvs name of None \<Rightarrow> [] | Some v \<Rightarrow> [v])"
| "apply_step Wildcard (JArr xs) = xs"
| "apply_step s v = []"

text \<open>
  Modelled from the spec: the traversal of section 4.1. Each step is applied to every
  node of the working sequence, left to right, and gives the next working sequence; the
  nodes left after the last step are the result.
\<close>

fun evaluate :: "step list \<Rightarrow> json list \<Rightarrow> json list" where
  "evaluate [] nodes = nodes"
| "evaluate (s # steps) nodes = evaluate steps (concat (map (apply_step s) nodes))"

text \<open>
  Modelled from the spec: \<^verbatim>\<open>find_all(jpath, obj)\<close>, missing from the sources. It
  fails with \<open>MalformedExpression\<close> when the text does not parse, before the document
  is read (sections 6 and 7), and otherwise returns the values matched, in document order.
\<close>

definition find_all :: "string \<Rightarrow> json \<Rightarrow> py_error + json list" where
  "find_all jpath obj =
     (case parse_expression jpath of
        Inl e \<Rightarrow> Inl e
      | Inr steps \<Rightarrow> Inr (evaluate steps [obj]))"

text \<open>
  Modelled from the spec: \<^verbatim>\<open>find_all_by_jsonpaths(jpaths, obj)\<close>, missing from the
  sources. Section 4.2: the expressions are evaluated in the order given and each result
  is appended to what has been collected; a malformed expression raises as
  \<^verbatim>\<open>find_all\<close> does.
\<close>

fun find_all_by_jsonpaths_loop :: "string list \<Rightarrow> json \<Rightarrow> json list \<Rightarrow> py_error + json list" where
  "find_all_by_jsonpaths_loop [] obj found = Inr found"
| "find_all_by_jsonpaths_loop (jpath # jpaths) obj found =
     (case find_all jpath obj of
        Inl e \<Rightarrow> Inl e
      | Inr values \<Rightarrow> find_all_by_jsonpaths_loop jpaths obj (found @ values))"

text \<open>
  Modelled from the spec: \<^verbatim>\<open>find_all_by_jsonpaths\<close> starts the loop with nothing
  collected.
\<close>

definition find_all_by_jsonpaths :: "string list \<Rightarrow> json \<Rightarrow> py_error + json list" where
  "find_all_by_jsonpaths jpaths obj = find_all_by_jsonpaths_loop jpaths obj []"

text \<open>
  Modelled from the spec: \<^verbatim>\<open>json_paths_to_lists(val)\<close>, missing from the sources.
  Section 4.4: a recursive walk that, at an object, descends into each field with the
  field appended to the path; at an array, records the path of the array and descends
  into each element with a wildcard appended, never an index. The recorded path is the
  one of the array itself, to which the caller appends \<^verbatim>\<open>[*].id\<close> (line 373; the
  docstring at line 348 gives \<^verbatim>\<open>buildings[*].building_segments\<close> for the building
  segments). The paths are texts that start with \<^verbatim>\<open>$\<close> (line 376).
\<close>

fun json_paths_walk :: "string \<Rightarrow> json \<Rightarrow> string list" where
  "json_paths_walk path (JObj kvs) =
     concat (map (\<lambda>kv. json_paths_walk (path @ ''.'' @ fst kv) (snd kv)) kvs)"
| "json_paths_walk path (JArr xs) =
     path # concat (map (json_paths_walk (path @ ''[*]'')) xs)"
| "json_paths_walk path v = []"

text \<open>
  Modelled from the spec: the result of \<^verbatim>\<open>json_paths_to_lists\<close> is a set of paths
  (section 4.4). It is kept as the list of the distinct paths, and the loop of the caller
  meets them in the order of this list; the order in which Python iterates over a set is
  not fixed by the language.
\<close>

definition json_paths_to_lists :: "json \<Rightarrow> string list" where
  "json_paths_to_lists val = remdups (json_paths_walk ''$'' val)"

text \<open>
  The values an expression finds, as a plain list (empty where \<^verbatim>\<open>find_all\<close> raises),
  and the values a list of expressions finds, in the order the expressions are declared.
  They are used to state what the checks return.
\<close>

definition found :: "string \<Rightarrow> json \<Rightarrow> json list" where
  "found jpath obj = (case find_all jpath obj of Inl e \<Rightarrow> [] | Inr values \<Rightarrow> values)"

definition found_all :: "string list \<Rightarrow> json \<Rightarrow> json list" where
  "found_all jpaths obj = concat (map (\<lambda>jpath. found jpath obj) jpaths)"

section \<open>The reference checks of \<^verbatim>\<open>validate.py\<close>\<close>

text \<open>
  Every association check ends with the same loop
  \<^verbatim>\<open>for x in referenced: if x not in ids: mismatch_list.append(x)\<close>;
  the last argument is \<^verbatim>\<open>mismatch_list\<close>.
\<close>

fun collect_mismatches :: "json list \<Rightarrow> json list \<Rightarrow> json list \<Rightarrow> json list" where
  "collect_mismatches id_list [] mismatch_list = mismatch_list"
| "collect_mismatches id_list (x # referenced) mismatch_list =
     collect_mismatches id_list referenced
       (if \<not> py_in x id_list then mismatch_list @ [x] else mismatch_list)"

subsection \<open>\<^verbatim>\<open>check_fluid_loop_association\<close>\<close>

definition fluid_loop_id_jsonpaths :: "string list" where
  "fluid_loop_id_jsonpaths =
     [''$.ruleset_model_descriptions[*].fluid_loops[*].id'',
      ''$.ruleset_model_descriptions[*].fluid_loops[*].child_loops[*].id'']"

definition fluid_reference_jsonpaths :: "string list" where
  "fluid_reference_jsonpaths =
     [''$.ruleset_model_descriptions[*].chillers[*].cooling_loop'',
      ''$.ruleset_model_descriptions[*].chillers[*].condensing_loop'',
      ''$.ruleset_model_descriptions[*].chillers[*].heat_recovery_loop'',
      ''$.ruleset_model_descriptions[*].buildings[*].building_segments[*].heating_ventilating_air_conditioning_systems[*].heating_system.hot_water_loop'',
      ''$.ruleset_model_descriptions[*].buildings[*].building_segments[*].heating_ventilating_air_conditioning_systems[*].heating_system.water_source_heat_pump_loop'',
      ''$.ruleset_model_descriptions[*].buildings[*].building_segments[*].heating_ventilating_air_conditioning_systems[*].cooling_system.chilled_water_loop'',
      ''$.ruleset_model_descriptions[*].buildings[*].building_segments[*].heating_ventilating_air_conditioning_systems[*].cooling_system.condenser_water_loop'',
      ''$.ruleset_model_descriptions[*].buildings[*].building_segments[*].zones[*].spaces[*].miscellaneous_equipment[*].energy_from_loop'',
      ''$.ruleset_model_descriptions[*].buildings[*].building_segments[*].zones[*].spaces[*].miscellaneous_equipment[*].remaining_fraction_to_loop'',
      ''$.ruleset_model_descriptions[*].buildings[*].building_segments[*].zones[*].terminals[*].cooling_from_loop'',
      ''$.ruleset_model_descriptions[*].buildings[*].building_segments[*].zones[*].terminals[*].heating_from_loop'',
      ''$.ruleset_model_descriptions[*].service_water_heating_equipment[*].hot_water_loop'',
      ''$.ruleset_model_descriptions[*].heat_rejections[*].loop'',
      ''$.ruleset_model_descriptions[*].boilers[*].loop'',
      ''$.ruleset_model_descriptions[*].service_water_heating_equipment[*].hot_water_loop'',
      ''$.ruleset_model_descriptions[*].external_fluid_sources[*].loop'']"

definition check_fluid_loop_association :: "json \<Rightarrow> py_error + json list" where
  "check_fluid_loop_association rpd =
     (case find_all_by_jsonpaths fluid_loop_id_jsonpaths rpd of
        Inl e \<Rightarrow> Inl e
      | Inr fluid_loop_id_list \<Rightarrow>
          (case find_all_by_jsonpaths fluid_reference_jsonpaths rpd of
             Inl e \<Rightarrow> Inl e
           | Inr referenced_id_list \<Rightarrow>
               Inr (collect_mismatches fluid_loop_id_list referenced_id_list [])))"

subsection \<open>\<^verbatim>\<open>check_zone_association\<close>\<close>

definition zone_reference_jsonpaths :: "string list" where
  "zone_reference_jsonpaths =
     [''$.ruleset_model_descriptions[*].buildings[*].elevators[*].motor_location_zone'',
      ''$.ruleset_model_descriptions[*].buildings[*].elevators[*].cab_location_zone'',
      ''$.ruleset_model_descriptions[*].buildings[*].refrigerated_cases[*].zone'',
      ''$.ruleset_model_descriptions[*].service_water_heating_equipment[*].compressor_zone'',
      ''$.ruleset_model_descriptions[*].service_water_heating_equipment[*].compressor_heat_rejection_zone'',
      ''$.ruleset_model_descriptions[*].buildings[*].building_segments[*].zones[*].zonal_exhaust_fan.motor_location_zone'',
      ''$.ruleset_model_descriptions[*].buildings[*].building_segments[*].zones[*].terminals[*].fan.motor_location_zone'',
      ''$.ruleset_model_descriptions[*].buildings[*].building_segments[*].heating_ventilating_air_conditioning_systems[*].fan_system.supply_fans[*].motor_location_zone'',
      ''$.ruleset_model_descriptions[*].buildings[*].building_segments[*].heating_ventilating_air_conditioning_systems[*].fan_system.return_fans[*].motor_location_zone'',
      ''$.ruleset_model_descriptions[*].buildings[*].building_segments[*].heating_ventilating_air_conditioning_systems[*].fan_system.relief_fans[*].motor_location_zone'',
      ''$.ruleset_model_descriptions[*].buildings[*].building_segments[*].heating_ventilating_air_conditioning_systems[*].fan_system.exhaust_fans[*].motor_location_zone'',
      ''$.ruleset_model_descriptions[*].service_water_heating_equipment[*].tank.location_zone'',
      ''$.ruleset_model_descriptions[*].service_water_heating_equipment[*].solar_thermal_systems[*].tank.location_zone'',
      ''$.ruleset_model_descriptions[*].service_water_heating_distribution_systems[*].tanks[*].location_zone'',
      ''$.ruleset_model_descriptions[*].buildings[*].building_segments[*].zones[*].surfaces[*].adjacent_zone'',
      ''$.ruleset_model_descriptions[*].buildings[*].building_segments[*].zones[*].transfer_airflow_source_zone'',
      ''$.ruleset_model_descriptions[*].service_water_heating_distribution_systems[*].service_water_piping[*].location_zone'']"

definition zone_id_jsonpath :: string where
  "zone_id_jsonpath =
     ''$.ruleset_model_descriptions[*].buildings[*].building_segments[*].zones[*].id''"

definition check_zone_association :: "json \<Rightarrow> py_error + json list" where
  "check_zone_association rpd =
     (case find_all zone_id_jsonpath rpd of
        Inl e \<Rightarrow> Inl e
      | Inr zone_id_list \<Rightarrow>
          (case find_all_by_jsonpaths zone_reference_jsonpaths rpd of
             Inl e \<Rightarrow> Inl e
           | Inr referenced_id_list \<Rightarrow>
               Inr (collect_mismatches zone_id_list referenced_id_list [])))"

subsection \<open>\<^verbatim>\<open>check_schedule_association\<close>\<close>

definition schedule_id_jsonpath :: string where
  "schedule_id_jsonpath =
     ''$.ruleset_model_descriptions[*].schedules[*].id''"

definition schedule_reference_jsonpaths :: "string list" where
  "schedule_reference_jsonpaths =
     [''$.ruleset_model_descriptions[*].buildings[*].elevators[*].cab_motor_multiplier_schedule'',
      ''$.ruleset_model_descriptions[*].buildings[*].elevators[*].cab_ventilation_fan_multiplier_schedule'',
      ''$.ruleset_model_descriptions[*].buildings[*].elevators[*].cab_lighting_multiplier_schedule'',
      ''$.ruleset_model_descriptions[*].buildings[*].refrigerated_cases[*].power_multiplier_schedule'',
      ''$.ruleset_model_descriptions[*].buildings[*].exterior_lighting[*].multiplier_schedule'',
      ''$.ruleset_model_descriptions[*].buildings[*].building_segments[*].zones[*].infiltration.multiplier_schedule'',
      ''$.ruleset_model_descriptions[*].buildings[*].building_segments[*].zones[*].thermostat_cooling_setpoint_schedule'',
      ''$.ruleset_model_descriptions[*].buildings[*].building_segments[*].zones[*].thermostat_heating_setpoint_schedule'',
      ''$.ruleset_model_descriptions[*].buildings[*].building_segments[*].zones[*].minimum_humidity_setpoint_schedule'',
      ''$.ruleset_model_descriptions[*].buildings[*].building_segments[*].zones[*].maximum_humidity_setpoint_schedule'',
      ''$.ruleset_model_descriptions[*].buildings[*].building_segments[*].zones[*].exhaust_airflow_rate_multiplier_schedule'',
      ''$.ruleset_model_descriptions[*].buildings[*].building_segments[*].zones[*].spaces[*].occupant_multiplier_schedule'',
      ''$.ruleset_model_descriptions[*].buildings[*].building_segments[*].zones[*].spaces[*].interior_lighting[*].lighting_multiplier_schedule'',
      ''$.ruleset_model_descriptions[*].service_water_heating_distribution_systems[*].flow_multiplier_schedule'',
      ''$.ruleset_model_descriptions[*].service_water_heating_distribution_systems[*].entering_water_mains_temperature_schedule'',
      ''$.ruleset_model_descriptions[*].buildings[*].building_segments[*].zones[*].spaces[*].service_water_heating_uses[*].use_multiplier_schedule'',
      ''$.ruleset_model_descriptions[*].buildings[*].building_open_schedule'',
      ''$.ruleset_model_descriptions[*].buildings[*].building_segments[*].zones[*].terminals[*].minimum_outdoor_airflow_multiplier_schedule'',
      ''$.ruleset_model_descriptions[*].buildings[*].building_segments[*].zones[*].spaces[*].miscellaneous_equipment[*].multiplier_schedule'',
      ''$.ruleset_model_descriptions[*].fluid_loops[*].cooling_or_condensing_design_and_control.operation_schedule'',
      ''$.ruleset_model_descriptions[*].fluid_loops[*].heating_design_and_control.operation_schedule'',
      ''$.ruleset_model_descriptions[*].fluid_loops[*].child_loops[*].cooling_or_condensing_design_and_control.operation_schedule'',
      ''$.ruleset_model_descriptions[*].fluid_loops[*].child_loops[*].heating_design_and_control.operation_schedule'',
      ''$.ruleset_model_descriptions[*].heating_ventilation_air_conditioning_systems[*].fan_system.supply_air_temperature_reset_schedule'',
      ''$.ruleset_model_descriptions[*].heating_ventilation_air_conditioning_systems[*].fan_system.operating_schedule'']"

definition check_schedule_association :: "json \<Rightarrow> py_error + json list" where
  "check_schedule_association rpd =
     (case find_all schedule_id_jsonpath rpd of
        Inl e \<Rightarrow> Inl e
      | Inr schedule_id_list \<Rightarrow>
          (case find_all_by_jsonpaths schedule_reference_jsonpaths rpd of
             Inl e \<Rightarrow> Inl e
           | Inr referenced_id_list \<Rightarrow>
               Inr (collect_mismatches schedule_id_list referenced_id_list [])))"

subsection \<open>\<^verbatim>\<open>check_fluid_loop_or_piping_association\<close>\<close>

definition fluid_loop_or_piping_id_jsonpaths :: "string list" where
  "fluid_loop_or_piping_id_jsonpaths =
     [''$.ruleset_model_descriptions[*].fluid_loops[*].id'',
      ''$.ruleset_model_descriptions[*].service_water_heating_distribution_systems[*].service_water_piping[*].id'',
      ''$.ruleset_model_descriptions[*].fluid_loops[*].child_loops[*].id'']"

definition loop_or_piping_reference_jsonpath :: string where
  "loop_or_piping_reference_jsonpath =
     ''$.ruleset_model_descriptions[*].pumps[*].loop_or_piping''"

definition check_fluid_loop_or_piping_association :: "json \<Rightarrow> py_error + json list" where
  "check_fluid_loop_or_piping_association rpd =
     (case find_all_by_jsonpaths fluid_loop_or_piping_id_jsonpaths rpd of
        Inl e \<Rightarrow> Inl e
      | Inr fluid_loop_or_piping_id_list \<Rightarrow>
          (case find_all loop_or_piping_reference_jsonpath rpd of
             Inl e \<Rightarrow> Inl e
           | Inr referenced_fluid_loop_or_piping_id_list \<Rightarrow>
               Inr (collect_mismatches fluid_loop_or_piping_id_list
                      referenced_fluid_loop_or_piping_id_list [])))"

subsection \<open>\<^verbatim>\<open>check_service_water_heating_association\<close>\<close>

definition service_water_heating_id_jsonpath :: string where
  "service_water_heating_id_jsonpath =
     ''$.ruleset_model_descriptions[*].service_water_heating_distribution_systems[*].id''"

definition service_water_heating_reference_jsonpaths :: "string list" where
  "service_water_heating_reference_jsonpaths =
     [''$.ruleset_model_descriptions[*].buildings[*].building_segments[*].zones[*].spaces[*].service_water_heating_uses[*].served_by_distribution_system'',
      ''$.ruleset_model_descriptions[*].buildings[*].building_segments[*].zones[*].served_by_service_water_heating_system'',
      ''$.ruleset_model_descriptions[*].service_water_heating_equipment[*].distribution_system'']"

definition check_service_water_heating_association :: "json \<Rightarrow> py_error + json list" where
  "check_service_water_heating_association rpd =
     (case find_all service_water_heating_id_jsonpath rpd of
        Inl e \<Rightarrow> Inl e
      | Inr service_water_heating_id_list \<Rightarrow>
          (case find_all_by_jsonpaths service_water_heating_reference_jsonpaths rpd of
             Inl e \<Rightarrow> Inl e
           | Inr referenced_service_water_heating_id_list \<Rightarrow>
               Inr (collect_mismatches service_water_heating_id_list
                      referenced_service_water_heating_id_list [])))"

subsection \<open>\<^verbatim>\<open>check_hvac_association\<close>\<close>

definition hvac_id_jsonpath :: string where
  "hvac_id_jsonpath =
     ''$.ruleset_model_descriptions[*].buildings[*].building_segments[*].heating_ventilating_air_conditioning_systems[*].id''"

definition served_by_hvac_jsonpath :: string where
  "served_by_hvac_jsonpath =
     ''$.ruleset_model_descriptions[*].buildings[*].building_segments[*].zones[*].terminals[*].served_by_heating_ventilating_air_conditioning_system''"

definition check_hvac_association :: "json \<Rightarrow> py_error + json list" where
  "check_hvac_association rpd =
     (case find_all hvac_id_jsonpath rpd of
        Inl e \<Rightarrow> Inl e
      | Inr hvac_id_list \<Rightarrow>
          (case find_all served_by_hvac_jsonpath rpd of
             Inl e \<Rightarrow> Inl e
           | Inr served_by_hvac_id_list \<Rightarrow>
               Inr (collect_mismatches hvac_id_list served_by_hvac_id_list [])))"

subsection \<open>\<^verbatim>\<open>check_unique_ids_in_ruleset_model_descriptions\<close>\<close>

text \<open>
  \<^verbatim>\<open>f"ruleset_model_descriptions[{rmi_index}]{list_path[1:]}"\<close>
\<close>

definition bad_path :: "nat \<Rightarrow> string \<Rightarrow> string" where
  "bad_path rmi_index list_path =
     ''ruleset_model_descriptions['' @ str_nat rmi_index @ '']'' @ drop 1 list_path"

text \<open>
  The inner loop \<^verbatim>\<open>for list_path in paths\<close> (lines 372 to 378); the last argument is
  \<^verbatim>\<open>bad_paths\<close>. An exception raised by \<^verbatim>\<open>find_all\<close> or by \<^verbatim>\<open>set(ids)\<close> leaves
  the function.
\<close>

fun check_list_paths :: "nat \<Rightarrow> json \<Rightarrow> string list \<Rightarrow> string list \<Rightarrow> py_error + string list" where
  "check_list_paths rmi_index rmi [] bad_paths = Inr bad_paths"
| "check_list_paths rmi_index rmi (list_path # paths) bad_paths =
     (case find_all (list_path @ ''[*].id'') rmi of
        Inl e \<Rightarrow> Inl e
      | Inr ids \<Rightarrow>
          (case len_set ids of
             Inl e \<Rightarrow> Inl e
           | Inr n \<Rightarrow>
               check_list_paths rmi_index rmi paths
                 (if length ids \<noteq> n then bad_paths @ [bad_path rmi_index list_path]
                  else bad_paths)))"

text \<open>
  The outer loop \<^verbatim>\<open>for rmi_index, rmi in enumerate(ruleset_model_descriptions)\<close>
  (lines 368 to 378).
\<close>

fun check_instances :: "nat \<Rightarrow> json list \<Rightarrow> string list \<Rightarrow> py_error + string list" where
  "check_instances rmi_index [] bad_paths = Inr bad_paths"
| "check_instances rmi_index (rmi # rmis) bad_paths =
     (case check_list_paths rmi_index rmi (json_paths_to_lists rmi) bad_paths of
        Inl e \<Rightarrow> Inl e
      | Inr bad_paths' \<Rightarrow> check_instances (Suc rmi_index) rmis bad_paths')"

text \<open>The value of \<^verbatim>\<open>bad_paths\<close> when the loops are over (line 379).\<close>

definition unique_ids_bad_paths :: "json \<Rightarrow> py_error + string list" where
  "unique_ids_bad_paths rpd =
     (case dict_get rpd ''ruleset_model_descriptions'' (JArr []) of
        Inl e \<Rightarrow> Inl e
      | Inr ruleset_model_descriptions \<Rightarrow>
          (case py_iter ruleset_model_descriptions of
             Inl e \<Rightarrow> Inl e
           | Inr rmis \<Rightarrow> check_instances 0 rmis []))"

definition error_msg :: "string list \<Rightarrow> string" where
  "error_msg bad_paths =
     (if bad_paths \<noteq> [] then ''Non-unique ids for paths: '' @ join ''; '' bad_paths
      else [])"

definition check_unique_ids_in_ruleset_model_descriptions :: "json \<Rightarrow> py_error + string" where
  "check_unique_ids_in_ruleset_model_descriptions rpd =
     (case unique_ids_bad_paths rpd of
        Inl e \<Rightarrow> Inl e
      | Inr bad_paths \<Rightarrow> Inr (error_msg bad_paths))"

text \<open>
  Names for the statements about the check: the model description instances the outer
  loop iterates over (none when the lookup or the iteration raises), whether the ids
  found under a list path hold a value twice (as \<^verbatim>\<open>set\<close> counts them), and the
  entries one instance adds to \<^verbatim>\<open>bad_paths\<close>.
\<close>

definition instances :: "json \<Rightarrow> json list" where
  "instances rpd =
     (case dict_get rpd ''ruleset_model_descriptions'' (JArr []) of
        Inl e \<Rightarrow> []
      | Inr ruleset_model_descriptions \<Rightarrow>
          (case py_iter ruleset_model_descriptions of Inl e \<Rightarrow> [] | Inr rmis \<Rightarrow> rmis))"

definition has_duplicate_ids :: "json \<Rightarrow> string \<Rightarrow> bool" where
  "has_duplicate_ids rmi list_path =
     (\<not> distinct (map py_key (found (list_path @ ''[*].id'') rmi)))"

definition flagged :: "nat \<Rightarrow> json \<Rightarrow> string list" where
  "flagged rmi_index rmi =
     map (bad_path rmi_index) (filter (has_duplicate_ids rmi) (json_paths_to_lists rmi))"

subsection \<open>\<^verbatim>\<open>validate_references\<close>\<close>

text \<open>
  An entry of the error list is a text. The entries built by an f-string are kept as the
  sequence of their literal pieces and of the lists they interpolate: Python prints an
  interpolated list with \<^verbatim>\<open>repr\<close>, element by element, so the text is a function of
  this sequence.
\<close>

datatype piece = Lit string | Interp "json list"

type_synonym message = "piece list"

record report =
  passed :: bool
  error :: "message list option"

definition hvac_message :: "json list \<Rightarrow> message" where
  "hvac_message mismatches =
     [Lit ''Cannot find HVAC systems '', Interp mismatches,
      Lit '' in the HeatingVentilationAirConditioningSystems data group.'']"

definition zone_message :: "json list \<Rightarrow> message" where
  "zone_message mismatches =
     [Lit ''Cannot find zones '', Interp mismatches, Lit '' in the Zone data group.'']"

definition fluid_loop_message :: "json list \<Rightarrow> message" where
  "fluid_loop_message mismatches =
     [Lit ''Cannot find fluid loop '', Interp mismatches,
      Lit '' in the FluidLoop data group.'']"

definition schedule_message :: "json list \<Rightarrow> message" where
  "schedule_message mismatches =
     [Lit ''Cannot find schedule '', Interp mismatches,
      Lit '' in the Schedule data group.'']"

definition piping_message :: "json list \<Rightarrow> message" where
  "piping_message mismatches =
     [Lit ''Cannot find piping '', Interp mismatches,
      Lit '' in the FluidLoop or ServiceWaterHeatingDistributionSystems data group.'']"

definition service_water_heating_message :: "json list \<Rightarrow> message" where
  "service_water_heating_message mismatches =
     [Lit ''Cannot find service water heating '', Interp mismatches,
      Lit '' in the ServiceWaterHeatingDistributionSystems data group.'']"

text \<open>
  The body of \<^verbatim>\<open>validate_references\<close> once the seven checks have returned (lines 426
  to 476), statement by statement: \<^verbatim>\<open>passed\<close> and \<^verbatim>\<open>error\<close> are reassigned after
  each check. The entry of the piping check is formatted with
  \<^verbatim>\<open>mismatch_schedule_errors\<close>, as line 464 is written.
\<close>

definition fold_results ::
  "string \<Rightarrow> json list \<Rightarrow> json list \<Rightarrow> json list \<Rightarrow> json list \<Rightarrow> json list \<Rightarrow> json list \<Rightarrow> report" where
  "fold_results unique_id_error mismatch_hvac_errors mismatch_zone_errors
     mismatch_fluid_loop_errors mismatch_schedule_errors mismatch_fluid_loop_piping_errors
     mismatch_service_water_heating_errors =
     (let error0 = [];
          passed0 = (unique_id_error = []);
          error1 = (if \<not> passed0 then error0 @ [[Lit unique_id_error]] else error0);
          passed1 = (passed0 \<and> mismatch_hvac_errors = []);
          error2 = (if mismatch_hvac_errors \<noteq> []
                    then error1 @ [hvac_message mismatch_hvac_errors] else error1);
          passed2 = (passed1 \<and> mismatch_zone_errors = []);
          error3 = (if mismatch_zone_errors \<noteq> []
                    then error2 @ [zone_message mismatch_zone_errors] else error2);
          passed3 = (passed2 \<and> mismatch_fluid_loop_errors = []);
          error4 = (if mismatch_fluid_loop_errors \<noteq> []
                    then error3 @ [fluid_loop_message mismatch_fluid_loop_errors] else error3);
          passed4 = (passed3 \<and> mismatch_schedule_errors = []);
          error5 = (if mismatch_schedule_errors \<noteq> []
                    then error4 @ [schedule_message mismatch_schedule_errors] else error4);
          passed5 = (passed4 \<and> mismatch_fluid_loop_piping_errors = []);
          error6 = (if mismatch_fluid_loop_piping_errors \<noteq> []
                    then error5 @ [piping_message mismatch_schedule_errors] else error5);
          passed6 = (passed5 \<and> mismatch_service_water_heating_errors = []);
          error7 = (if mismatch_service_water_heating_errors \<noteq> []
                    then error6 @ [service_water_heating_message
                                     mismatch_service_water_heating_errors]
                    else error6)
      in \<lparr>passed = passed6, error = (if error7 \<noteq> [] then Some error7 else None)\<rparr>)"

text \<open>
  \<^verbatim>\<open>validate_references\<close>: the checks are called in the order of the source, and an
  exception raised by one of them leaves the function.
\<close>

definition validate_references :: "json \<Rightarrow> py_error + report" where
  "validate_references rpd =
     (case check_unique_ids_in_ruleset_model_descriptions rpd of
        Inl e \<Rightarrow> Inl e
      | Inr unique_id_error \<Rightarrow>
     (case check_hvac_association rpd of
        Inl e \<Rightarrow> Inl e
      | Inr mismatch_hvac_errors \<Rightarrow>
     (case check_zone_association rpd of
        Inl e \<Rightarrow> Inl e
      | Inr mismatch_zone_errors \<Rightarrow>
     (case check_fluid_loop_association rpd of
        Inl e \<Rightarrow> Inl e
      | Inr mismatch_fluid_loop_errors \<Rightarrow>
     (case check_schedule_association rpd of
        Inl e \<Rightarrow> Inl e
      | Inr mismatch_schedule_errors \<Rightarrow>
     (case check_fluid_loop_or_piping_association rpd of
        Inl e \<Rightarrow> Inl e
      | Inr mismatch_fluid_loop_piping_errors \<Rightarrow>
     (case check_service_water_heating_association rpd of
        Inl e \<Rightarrow> Inl e
      | Inr mismatch_service_water_heating_errors \<Rightarrow>
          Inr (fold_results unique_id_error mismatch_hvac_errors mismatch_zone_errors
                 mismatch_fluid_loop_errors mismatch_schedule_errors
                 mismatch_fluid_loop_piping_errors
                 mismatch_service_water_heating_errors))))))))"

section \<open>Example documents\<close>

text \<open>
  One model description with one building segment: HVAC systems \<^verbatim>\<open>A\<close> and \<^verbatim>\<open>B\<close>,
  and three terminals served by \<^verbatim>\<open>A\<close>, \<^verbatim>\<open>C\<close> and \<^verbatim>\<open>C\<close>.
\<close>

definition doc_hvac :: json where
  "doc_hvac =
     JObj [(''ruleset_model_descriptions'', JArr [JObj [(''buildings'', JArr [JObj
       [(''building_segments'', JArr [JObj
          [(''heating_ventilating_air_conditioning_systems'',
              JArr [JObj [(''id'', JStr ''A'')], JObj [(''id'', JStr ''B'')]]),
           (''zones'', JArr [JObj [(''terminals'', JArr
              [JObj [(''served_by_heating_ventilating_air_conditioning_system'', JStr ''A'')],
               JObj [(''served_by_heating_ventilating_air_conditioning_system'', JStr ''C'')],
               JObj [(''served_by_heating_ventilating_air_conditioning_system'', JStr ''C'')]])]])]])]])]])]"

text \<open>
  A list with objects that have or lack the fields \<^verbatim>\<open>b\<close> and \<^verbatim>\<open>c\<close>, and with a
  number among them.
\<close>

definition doc_ab :: json where
  "doc_ab = JObj [(''a'', JArr [JObj [(''b'', JNum 1)], JObj [(''c'', JNum 5)], JNum 3,
                                JObj [(''b'', JNum 2)]])]"

text \<open>
  The path that \<^verbatim>\<open>fluid_reference_jsonpaths\<close> lists at lines 122 and 125.
\<close>

definition swhe_hot_water_loop_jsonpath :: string where
  "swhe_hot_water_loop_jsonpath =
     ''$.ruleset_model_descriptions[*].service_water_heating_equipment[*].hot_water_loop''"

text \<open>
  A water heater whose \<^verbatim>\<open>hot_water_loop\<close> names a loop that does not exist.
\<close>

definition doc_swhe :: json where
  "doc_swhe =
     JObj [(''ruleset_model_descriptions'', JArr [JObj
       [(''fluid_loops'', JArr [JObj [(''id'', JStr ''L1'')]]),
        (''boilers'', JArr [JObj [(''id'', JStr ''B1''), (''loop'', JStr ''L1'')]]),
        (''service_water_heating_equipment'',
           JArr [JObj [(''id'', JStr ''W1''), (''hot_water_loop'', JStr ''L9'')]])]])]"

text \<open>
  A pump whose \<^verbatim>\<open>loop_or_piping\<close> names a loop that does not exist; no schedule is
  referenced.
\<close>

definition doc_pump :: json where
  "doc_pump =
     JObj [(''ruleset_model_descriptions'', JArr [JObj
       [(''fluid_loops'', JArr [JObj [(''id'', JStr ''L1'')]]),
        (''pumps'', JArr [JObj [(''id'', JStr ''P1''), (''loop_or_piping'', JStr ''L7'')]])]])]"

text \<open>
  A model description where the collection \<^verbatim>\<open>a\<close> holds the id \<^verbatim>\<open>x\<close> twice and an
  element of the collection \<^verbatim>\<open>b\<close> has an object for id.
\<close>

definition rmi_unhashable :: json where
  "rmi_unhashable =
     JObj [(''a'', JArr [JObj [(''id'', JStr ''x'')], JObj [(''id'', JStr ''x'')]]),
           (''b'', JArr [JObj [(''id'', JObj [(''k'', JNum 1)])]])]"

definition doc_unhashable :: json where
  "doc_unhashable = JObj [(''ruleset_model_descriptions'', JArr [rmi_unhashable])]"

text \<open>
  Two model descriptions. In the first, \<^verbatim>\<open>a\<close> holds the id \<^verbatim>\<open>x\<close> three times,
  \<^verbatim>\<open>b\<close> holds the ids \<^verbatim>\<open>1\<close> and \<^verbatim>\<open>true\<close>, equal in Python, and the ids of
  \<^verbatim>\<open>c\<close> differ; in the second, \<^verbatim>\<open>a\<close> holds the id \<^verbatim>\<open>y\<close> twice.
\<close>

definition doc_dups :: json where
  "doc_dups =
     JObj [(''ruleset_model_descriptions'', JArr
       [JObj [(''a'', JArr [JObj [(''id'', JStr ''x'')], JObj [(''id'', JStr ''x'')],
                            JObj [(''id'', JStr ''x'')]]),
              (''b'', JArr [JObj [(''id'', JNum 1)], JObj [(''id'', JBool True)]]),
              (''c'', JArr [JObj [(''id'', JStr ''u'')], JObj [(''id'', JStr ''v'')]])],
        JObj [(''a'', JArr [JObj [(''id'', JStr ''y'')], JObj [(''id'', JStr ''y'')]])]])]"

text \<open>
  A pump whose \<^verbatim>\<open>loop_or_piping\<close> names a loop that does not exist and whose id is
  an object.
\<close>

definition doc_pump_object_id :: json where
  "doc_pump_object_id =
     JObj [(''ruleset_model_descriptions'', JArr [JObj
       [(''pumps'', JArr [JObj [(''id'', JObj [(''k'', JNum 1)]),
                                (''loop_or_piping'', JStr ''L7'')]])]])]"

section \<open>The association loop and the multi-path aggregator\<close>

lemma collect_mismatches_filter:
  "collect_mismatches id_list referenced mismatch_list =
     mismatch_list @ filter (\<lambda>x. \<not> py_in x id_list) referenced"
  by (induction referenced arbitrary: mismatch_list) simp_all

lemma find_all_well_formed:
  "well_formed jpath \<Longrightarrow> find_all jpath obj = Inr (found jpath obj)"
  by (simp add: well_formed_def found_def find_all_def split: sum.splits)

lemma find_all_by_jsonpaths_loop_concat:
  "list_all well_formed jpaths \<Longrightarrow>
     find_all_by_jsonpaths_loop jpaths obj acc = Inr (acc @ found_all jpaths obj)"
proof (induction jpaths arbitrary: acc)
  case Nil
  then show ?case by (simp add: found_all_def)
next
  case (Cons jpath jpaths)
  then show ?case by (simp add: found_all_def find_all_well_formed)
qed

lemma find_all_by_jsonpaths_concat:
  "list_all well_formed jpaths \<Longrightarrow>
     find_all_by_jsonpaths jpaths obj = Inr (found_all jpaths obj)"
  by (simp add: find_all_by_jsonpaths_def find_all_by_jsonpaths_loop_concat)

subsection \<open>Every path written in \<^verbatim>\<open>validate.py\<close> parses\<close>

lemma wf_fluid_loop_id_jsonpaths: "list_all well_formed fluid_loop_id_jsonpaths"
  by (simp add: fluid_loop_id_jsonpaths_def well_formed_def parse_expression_def flush_def)

lemma wf_fluid_reference_jsonpaths: "list_all well_formed fluid_reference_jsonpaths"
  by (simp add: fluid_reference_jsonpaths_def well_formed_def parse_expression_def flush_def)

lemma wf_zone_reference_jsonpaths: "list_all well_formed zone_reference_jsonpaths"
  by (simp add: zone_reference_jsonpaths_def well_formed_def parse_expression_def flush_def)

lemma wf_schedule_reference_jsonpaths: "list_all well_formed schedule_reference_jsonpaths"
  by (simp add: schedule_reference_jsonpaths_def well_formed_def parse_expression_def flush_def)

lemma wf_fluid_loop_or_piping_id_jsonpaths:
  "list_all well_formed fluid_loop_or_piping_id_jsonpaths"
  by (simp add: fluid_loop_or_piping_id_jsonpaths_def well_formed_def parse_expression_def
      flush_def)

lemma wf_service_water_heating_reference_jsonpaths:
  "list_all well_formed service_water_heating_reference_jsonpaths"
  by (simp add: service_water_heating_reference_jsonpaths_def well_formed_def
      parse_expression_def flush_def)

lemma wf_single_jsonpaths:
  "well_formed zone_id_jsonpath" "well_formed schedule_id_jsonpath"
  "well_formed loop_or_piping_reference_jsonpath" "well_formed service_water_heating_id_jsonpath"
  "well_formed hvac_id_jsonpath" "well_formed served_by_hvac_jsonpath"
  by (simp_all add: zone_id_jsonpath_def schedule_id_jsonpath_def
      loop_or_piping_reference_jsonpath_def service_water_heating_id_jsonpath_def
      hvac_id_jsonpath_def served_by_hvac_jsonpath_def
      well_formed_def parse_expression_def flush_def)

subsection \<open>What the six association checks return\<close>

lemma check_hvac_association_filter:
  "check_hvac_association rpd =
     Inr (filter (\<lambda>x. \<not> py_in x (found hvac_id_jsonpath rpd))
            (found served_by_hvac_jsonpath rpd))"
  by (simp add: check_hvac_association_def find_all_well_formed wf_single_jsonpaths
      collect_mismatches_filter)

lemma check_zone_association_filter:
  "check_zone_association rpd =
     Inr (filter (\<lambda>x. \<not> py_in x (found zone_id_jsonpath rpd))
            (found_all zone_reference_jsonpaths rpd))"
  by (simp add: check_zone_association_def find_all_well_formed wf_single_jsonpaths
      find_all_by_jsonpaths_concat wf_zone_reference_jsonpaths collect_mismatches_filter)

lemma check_fluid_loop_association_filter:
  "check_fluid_loop_association rpd =
     Inr (filter (\<lambda>x. \<not> py_in x (found_all fluid_loop_id_jsonpaths rpd))
            (found_all fluid_reference_jsonpaths rpd))"
  by (simp add: check_fluid_loop_association_def find_all_by_jsonpaths_concat
      wf_fluid_loop_id_jsonpaths wf_fluid_reference_jsonpaths collect_mismatches_filter)

lemma check_schedule_association_filter:
  "check_schedule_association rpd =
     Inr (filter (\<lambda>x. \<not> py_in x (found schedule_id_jsonpath rpd))
            (found_all schedule_reference_jsonpaths rpd))"
  by (simp add: check_schedule_association_def find_all_well_formed wf_single_jsonpaths
      find_all_by_jsonpaths_concat wf_schedule_reference_jsonpaths collect_mismatches_filter)

lemma check_fluid_loop_or_piping_association_filter:
  "check_fluid_loop_or_piping_association rpd =
     Inr (filter (\<lambda>x. \<not> py_in x (found_all fluid_loop_or_piping_id_jsonpaths rpd))
            (found loop_or_piping_reference_jsonpath rpd))"
  by (simp add: check_fluid_loop_or_piping_association_def find_all_well_formed
      wf_single_jsonpaths find_all_by_jsonpaths_concat wf_fluid_loop_or_piping_id_jsonpaths
      collect_mismatches_filter)

lemma check_service_water_heating_association_filter:
  "check_service_water_heating_association rpd =
     Inr (filter (\<lambda>x. \<not> py_in x (found service_water_heating_id_jsonpath rpd))
            (found_all service_water_heating_reference_jsonpaths rpd))"
  by (simp add: check_service_water_heating_association_def find_all_well_formed
      wf_single_jsonpaths find_all_by_jsonpaths_concat
      wf_service_water_heating_reference_jsonpaths collect_mismatches_filter)

lemma found_hvac_ids: "found hvac_id_jsonpath doc_hvac = [JStr ''A'', JStr ''B'']"
  by (simp add: found_def find_all_def hvac_id_jsonpath_def parse_expression_def flush_def
      doc_hvac_def)

lemma found_hvac_refs:
  "found served_by_hvac_jsonpath doc_hvac = [JStr ''A'', JStr ''C'', JStr ''C'']"
  by (simp add: found_def find_all_def served_by_hvac_jsonpath_def parse_expression_def
      flush_def doc_hvac_def)

text \<open>
  Claim C1. Each of the six dangling-reference checks returns, for every document, the
  values found by its reference paths, in the order the paths are declared, without those
  contained among the values found by its primary-id paths; the order and the duplicates
  of the referenced values are kept. With ids \<^verbatim>\<open>A\<close>, \<^verbatim>\<open>B\<close> and references
  \<^verbatim>\<open>A\<close>, \<^verbatim>\<open>C\<close>, \<^verbatim>\<open>C\<close> the loop returns \<^verbatim>\<open>C\<close>, \<^verbatim>\<open>C\<close>.
\<close>

theorem dangling_reference_checks:
  "check_hvac_association rpd =
     Inr (filter (\<lambda>x. \<not> py_in x (found hvac_id_jsonpath rpd))
            (found served_by_hvac_jsonpath rpd))
   \<and> check_zone_association rpd =
     Inr (filter (\<lambda>x. \<not> py_in x (found zone_id_jsonpath rpd))
            (found_all zone_reference_jsonpaths rpd))
   \<and> check_fluid_loop_association rpd =
     Inr (filter (\<lambda>x. \<not> py_in x (found_all fluid_loop_id_jsonpaths rpd))
            (found_all fluid_reference_jsonpaths rpd))
   \<and> check_schedule_association rpd =
     Inr (filter (\<lambda>x. \<not> py_in x (found schedule_id_jsonpath rpd))
            (found_all schedule_reference_jsonpaths rpd))
   \<and> check_fluid_loop_or_piping_association rpd =
     Inr (filter (\<lambda>x. \<not> py_in x (found_all fluid_loop_or_piping_id_jsonpaths rpd))
            (found loop_or_piping_reference_jsonpath rpd))
   \<and> check_service_water_heating_association rpd =
     Inr (filter (\<lambda>x. \<not> py_in x (found service_water_heating_id_jsonpath rpd))
            (found_all service_water_heating_reference_jsonpaths rpd))
   \<and> collect_mismatches [JStr ''A'', JStr ''B''] [JStr ''A'', JStr ''C'', JStr ''C''] [] =
       [JStr ''C'', JStr ''C'']"
  by (simp add: check_hvac_association_filter check_zone_association_filter
      check_fluid_loop_association_filter check_schedule_association_filter
      check_fluid_loop_or_piping_association_filter
      check_service_water_heating_association_filter py_in_def)

theorem dangling_reference_checks_witness:
  "check_hvac_association doc_hvac = Inr [JStr ''C'', JStr ''C'']"
  using dangling_reference_checks [of doc_hvac]
  by (simp add: found_hvac_ids found_hvac_refs py_in_def)

lemmas eval_path =
  found_all_def found_def find_all_def parse_expression_def flush_def py_in_def

section \<open>The path evaluator\<close>

text \<open>
  Claim C6. For a list of well-formed expressions, \<^verbatim>\<open>find_all_by_jsonpaths\<close> returns
  the concatenation of what \<^verbatim>\<open>find_all\<close> returns for each of them, in the order given,
  with nothing reordered or removed; for two expressions it is the result of the first
  followed by the result of the second.
\<close>

theorem find_all_by_jsonpaths_concatenation:
  "(list_all well_formed jpaths \<longrightarrow>
      list_all (\<lambda>jpath. find_all jpath obj = Inr (found jpath obj)) jpaths
      \<and> find_all_by_jsonpaths jpaths obj = Inr (concat (map (\<lambda>jpath. found jpath obj) jpaths)))
   \<and> (find_all e1 obj = Inr r1 \<and> find_all e2 obj = Inr r2 \<longrightarrow>
        find_all_by_jsonpaths [e1, e2] obj = Inr (r1 @ r2))"
proof (intro conjI impI)
  assume wf: "list_all well_formed jpaths"
  then show "list_all (\<lambda>jpath. find_all jpath obj = Inr (found jpath obj)) jpaths"
    by (simp add: list_all_iff find_all_well_formed)
  from wf show "find_all_by_jsonpaths jpaths obj = Inr (concat (map (\<lambda>jpath. found jpath obj) jpaths))"
    using find_all_by_jsonpaths_concat [of jpaths obj] by (simp add: found_all_def)
next
  assume "find_all e1 obj = Inr r1 \<and> find_all e2 obj = Inr r2"
  then show "find_all_by_jsonpaths [e1, e2] obj = Inr (r1 @ r2)"
    by (simp add: find_all_by_jsonpaths_def)
qed

theorem find_all_by_jsonpaths_concatenation_witness:
  "find_all_by_jsonpaths [''$.a[*].b'', ''$.a[*].c''] doc_ab = Inr [JNum 1, JNum 2, JNum 5]"
  using find_all_by_jsonpaths_concatenation
    [where jpaths = "[''$.a[*].b'', ''$.a[*].c'']" and obj = doc_ab and ?e1.0 = "''$.a[*].b''"
       and ?r1.0 = "[JNum 1, JNum 2]" and ?e2.0 = "''$.a[*].c''" and ?r2.0 = "[JNum 5]"]
  by (simp add: eval_path well_formed_def doc_ab_def)

lemma parse_steps_error: "parse_steps name cs = Inl e \<Longrightarrow> e = MalformedExpression"
  by (induction name cs rule: parse_steps.induct) (auto split: if_splits sum.splits)

lemma parse_expression_error: "parse_expression cs = Inl e \<Longrightarrow> e = MalformedExpression"
  by (auto simp: parse_expression_def simp del: parse_steps.simps dest: parse_steps_error
      split: list.splits if_splits)

lemma evaluate_append:
  "evaluate steps (nodes @ nodes') = evaluate steps nodes @ evaluate steps nodes'"
  by (induction steps arbitrary: nodes nodes') simp_all

lemma apply_step_wildcard_non_array: "(\<forall>xs. node \<noteq> JArr xs) \<Longrightarrow> apply_step Wildcard node = []"
  by (cases node) simp_all

text \<open>
  Claim C7. On a well-formed expression \<^verbatim>\<open>find_all\<close> returns for every document. When
  it raises, the error is \<open>MalformedExpression\<close>, the expression does not parse, and the
  same error is raised on any other document. A field step on an object without the
  name and a wildcard on a node that is no array give no result, and a node that gives
  no result leaves the results of the other nodes as they are.
\<close>

theorem find_all_raises_only_at_parse_time:
  "(well_formed jpath \<longrightarrow> find_all jpath obj = Inr (found jpath obj))
   \<and> (find_all jpath obj = Inl e \<longrightarrow>
        e = MalformedExpression \<and> \<not> well_formed jpath \<and> find_all jpath obj' = Inl e)
   \<and> (map_of kvs name = None \<longrightarrow> apply_step (FieldStep name) (JObj kvs) = [])
   \<and> ((\<forall>xs. node \<noteq> JArr xs) \<longrightarrow> apply_step Wildcard node = [])
   \<and> (apply_step s node = [] \<longrightarrow>
        evaluate (s # steps) (nodes @ node # nodes') = evaluate (s # steps) (nodes @ nodes'))"
proof (intro conjI impI)
  assume "well_formed jpath"
  then show "find_all jpath obj = Inr (found jpath obj)" by (rule find_all_well_formed)
next
  assume a: "find_all jpath obj = Inl e"
  then have p: "parse_expression jpath = Inl e"
    by (simp add: find_all_def split: sum.splits)
  then show "e = MalformedExpression" by (rule parse_expression_error)
  from p show "\<not> well_formed jpath" by (simp add: well_formed_def)
  from p show "find_all jpath obj' = Inl e" by (simp add: find_all_def)
next
  assume "map_of kvs name = None"
  then show "apply_step (FieldStep name) (JObj kvs) = []" by simp
next
  assume "\<forall>xs. node \<noteq> JArr xs"
  then show "apply_step Wildcard node = []" by (rule apply_step_wildcard_non_array)
next
  assume "apply_step s node = []"
  then show "evaluate (s # steps) (nodes @ node # nodes') = evaluate (s # steps) (nodes @ nodes')"
    by simp
qed

theorem find_all_raises_only_at_parse_time_witness:
  "find_all ''$.a[*].b'' doc_ab = Inr [JNum 1, JNum 2]
   \<and> find_all ''$.a[0].b'' doc_ab = Inl MalformedExpression
   \<and> find_all ''$.a[0].b'' JNull = Inl MalformedExpression
   \<and> apply_step (FieldStep ''b'') (JObj [(''c'', JNum 5)]) = []
   \<and> apply_step Wildcard (JNum 3) = []
   \<and> evaluate [FieldStep ''b''] [JObj [(''b'', JNum 1)], JObj [(''c'', JNum 5)], JObj [(''b'', JNum 2)]]
       = [JNum 1, JNum 2]"
  using find_all_raises_only_at_parse_time
    [where jpath = "''$.a[*].b''" and obj = doc_ab and e = MalformedExpression and obj' = JNull
       and kvs = "[(''c'', JNum 5)]" and name = "''b''" and node = "JNum 3"]
    find_all_raises_only_at_parse_time
    [where jpath = "''$.a[0].b''" and obj = doc_ab and e = MalformedExpression and obj' = JNull
       and s = "FieldStep ''b''" and node = "JObj [(''c'', JNum 5)]" and steps = "[]"
       and nodes = "[JObj [(''b'', JNum 1)]]" and nodes' = "[JObj [(''b'', JNum 2)]]"]
  by (simp add: eval_path well_formed_def doc_ab_def)

section \<open>The path declared twice in \<^verbatim>\<open>check_fluid_loop_association\<close>\<close>

lemma count_list_filter:
  "count_list (filter P xs) v = (if P v then count_list xs v else 0)"
  by (induction xs) auto

lemma sum_list_split_removeAll:
  "sum_list (map f xs) = count_list xs a * f a + sum_list (map f (removeAll a xs))"
  for f :: "'a \<Rightarrow> nat"
  by (induction xs) auto

lemma count_list_found_all:
  "count_list (found_all jpaths obj) v = sum_list (map (\<lambda>jpath. count_list (found jpath obj) v) jpaths)"
  by (simp add: found_all_def count_list_concat comp_def)

lemma swhe_declared_twice: "count_list fluid_reference_jsonpaths swhe_hot_water_loop_jsonpath = 2"
  by (simp add: fluid_reference_jsonpaths_def swhe_hot_water_loop_jsonpath_def)

text \<open>
  Claim C9. The \<^verbatim>\<open>hot_water_loop\<close> path of the service water heating equipment stands
  twice in \<^verbatim>\<open>fluid_reference_jsonpaths\<close>. For every document and every value that is
  not among the fluid loop ids, the mismatch list holds the value twice for each time the
  path finds it, plus once for each time another reference path finds it.
\<close>

theorem swhe_hot_water_loop_counted_twice:
  "count_list fluid_reference_jsonpaths swhe_hot_water_loop_jsonpath = 2
   \<and> (\<exists>mismatch_list. check_fluid_loop_association rpd = Inr mismatch_list
        \<and> (\<not> py_in v (found_all fluid_loop_id_jsonpaths rpd) \<longrightarrow>
             count_list mismatch_list v =
               2 * count_list (found swhe_hot_water_loop_jsonpath rpd) v
               + count_list
                   (found_all (removeAll swhe_hot_water_loop_jsonpath fluid_reference_jsonpaths) rpd) v))"
proof -
  have "count_list (found_all fluid_reference_jsonpaths rpd) v =
      2 * count_list (found swhe_hot_water_loop_jsonpath rpd) v
      + count_list (found_all (removeAll swhe_hot_water_loop_jsonpath fluid_reference_jsonpaths) rpd) v"
    unfolding count_list_found_all
    using sum_list_split_removeAll [of "\<lambda>jpath. count_list (found jpath rpd) v"
        fluid_reference_jsonpaths swhe_hot_water_loop_jsonpath]
    by (simp only: swhe_declared_twice)
  then show ?thesis
    by (simp add: check_fluid_loop_association_filter count_list_filter swhe_declared_twice)
qed

theorem swhe_hot_water_loop_counted_twice_witness:
  "\<not> py_in (JStr ''L9'') (found_all fluid_loop_id_jsonpaths doc_swhe)
   \<and> count_list (found swhe_hot_water_loop_jsonpath doc_swhe) (JStr ''L9'') = 1
   \<and> check_fluid_loop_association doc_swhe = Inr [JStr ''L9'', JStr ''L9'']"
  using swhe_hot_water_loop_counted_twice [of doc_swhe "JStr ''L9''"]
  by (simp add: check_fluid_loop_association_filter eval_path fluid_loop_id_jsonpaths_def
      fluid_reference_jsonpaths_def swhe_hot_water_loop_jsonpath_def doc_swhe_def)

section \<open>The unique-id check\<close>

lemma py_key_eq_iff: "hashable a \<Longrightarrow> hashable b \<Longrightarrow> py_key a = py_key b \<longleftrightarrow> py_eq a b"
  by (cases a; cases b) auto

lemma len_set_differs:
  "len_set ids = Inr n \<Longrightarrow> length ids \<noteq> n \<longleftrightarrow> \<not> distinct (map py_key ids)"
proof -
  assume "len_set ids = Inr n"
  then have n: "n = length (remdups (map py_key ids))"
    by (simp add: len_set_def split: if_splits)
  have "length (remdups (map py_key ids)) = length (map py_key ids)
      \<longleftrightarrow> distinct (map py_key ids)"
    by (simp only: length_remdups_eq remdups_id_iff_distinct)
  with n show ?thesis by auto
qed

lemma found_eq: "find_all jpath obj = Inr values \<Longrightarrow> found jpath obj = values"
  by (simp add: found_def)

lemma check_list_paths_flagged:
  "check_list_paths rmi_index rmi paths bad_paths = Inr bad_paths' \<Longrightarrow>
     bad_paths' = bad_paths @ map (bad_path rmi_index) (filter (has_duplicate_ids rmi) paths)"
proof (induction paths arbitrary: bad_paths)
  case Nil
  then show ?case by simp
next
  case (Cons list_path paths)
  from Cons.prems obtain ids n where
    ids: "find_all (list_path @ ''[*].id'') rmi = Inr ids" and n: "len_set ids = Inr n"
    and rest: "check_list_paths rmi_index rmi paths
        (if length ids \<noteq> n then bad_paths @ [bad_path rmi_index list_path] else bad_paths)
       = Inr bad_paths'"
    by (auto split: sum.splits)
  have dup: "has_duplicate_ids rmi list_path \<longleftrightarrow> length ids \<noteq> n"
    using len_set_differs [OF n] found_eq [OF ids] by (simp add: has_duplicate_ids_def)
  from Cons.IH [OF rest] dup show ?case by simp
qed

lemma check_instances_flagged:
  "check_instances rmi_index rmis bad_paths = Inr bad_paths' \<Longrightarrow>
     bad_paths' = bad_paths @ concat (map (\<lambda>(i, rmi). flagged i rmi) (enumerate rmi_index rmis))"
proof (induction rmis arbitrary: rmi_index bad_paths)
  case Nil
  then show ?case by simp
next
  case (Cons rmi rmis)
  from Cons.prems obtain mid where
    first: "check_list_paths rmi_index rmi (json_paths_to_lists rmi) bad_paths = Inr mid"
    and rest: "check_instances (Suc rmi_index) rmis mid = Inr bad_paths'"
    by (auto split: sum.splits)
  from check_list_paths_flagged [OF first] Cons.IH [OF rest] show ?case
    by (simp add: flagged_def)
qed

lemma unique_ids_bad_paths_flagged:
  assumes "unique_ids_bad_paths rpd = Inr bad_paths"
  shows "bad_paths = concat (map (\<lambda>(i, rmi). flagged i rmi) (enumerate 0 (instances rpd)))"
proof -
  from assms obtain v rmis where
    "dict_get rpd ''ruleset_model_descriptions'' (JArr []) = Inr v" "py_iter v = Inr rmis"
    "check_instances 0 rmis [] = Inr bad_paths"
    by (auto simp: unique_ids_bad_paths_def split: sum.splits)
  then show ?thesis
    using check_instances_flagged [of 0 rmis "[]" bad_paths] by (simp add: instances_def)
qed

lemma str_nat_nonempty: "str_nat n \<noteq> []"
  by (subst str_nat.simps) simp

lemma digit_inj: "a < 10 \<Longrightarrow> b < 10 \<Longrightarrow> char_of (48 + a) = (char_of (48 + b) :: char) \<Longrightarrow> a = b" for a b :: nat
proof -
  assume a: "a < 10" and b: "b < 10" and e: "char_of (48 + a) = (char_of (48 + b) :: char)"
  from e have "(of_char (char_of (48 + a) :: char) :: nat) = of_char (char_of (48 + b) :: char)" by simp
  with a b show "a = b" by simp
qed

lemma digit_not_bracket: "a < 10 \<Longrightarrow> char_of (48 + a) \<noteq> CHR '']''" for a :: nat
proof
  assume a: "a < 10" and e: "char_of (48 + a) = CHR '']''"
  from e have "(of_char (char_of (48 + a) :: char) :: nat) = of_char CHR '']''" by simp
  with a show False by simp
qed

lemma str_nat_no_bracket: "CHR '']'' \<notin> set (str_nat n)"
proof (induction n rule: str_nat.induct)
  case (1 n)
  show ?case
  proof (cases "n < 10")
    case True
    then show ?thesis using digit_not_bracket [of n] by (subst str_nat.simps) auto
  next
    case False
    have "n mod 10 < 10" by simp
    then have "char_of (48 + n mod 10) \<noteq> CHR '']''" by (rule digit_not_bracket)
    with False 1 show ?thesis by (subst str_nat.simps) auto
  qed
qed

lemma str_nat_inj: "str_nat n = str_nat m \<Longrightarrow> n = m"
proof (induction n arbitrary: m rule: str_nat.induct)
  case (1 n)
  show ?case
  proof (cases "n < 10")
    case True
    show ?thesis
    proof (cases "m < 10")
      case m: True
      from "1.prems" True m have "char_of (48 + n) = (char_of (48 + m) :: char)"
        by (subst (asm) str_nat.simps, subst (asm) (2) str_nat.simps) simp
      with True m show ?thesis using digit_inj [of n m] by simp
    next
      case m: False
      from "1.prems" True m have "[char_of (48 + n)] = str_nat (m div 10) @ [char_of (48 + m mod 10)]"
        by (subst (asm) str_nat.simps, subst (asm) (2) str_nat.simps) simp
      then show ?thesis using str_nat_nonempty [of "m div 10"] by simp
    qed
  next
    case False
    show ?thesis
    proof (cases "m < 10")
      case m: True
      from "1.prems" False m have "str_nat (n div 10) @ [char_of (48 + n mod 10)] = [char_of (48 + m)]"
        by (subst (asm) str_nat.simps, subst (asm) (2) str_nat.simps) simp
      then show ?thesis using str_nat_nonempty [of "n div 10"] by simp
    next
      case m: False
      from "1.prems" False m have
        e: "str_nat (n div 10) @ [char_of (48 + n mod 10)] = str_nat (m div 10) @ [char_of (48 + m mod 10)]"
        by (subst (asm) str_nat.simps, subst (asm) (2) str_nat.simps) simp
      then have "str_nat (n div 10) = str_nat (m div 10)"
        and d: "char_of (48 + n mod 10) = (char_of (48 + m mod 10) :: char)" by simp_all
      with 1 False have q: "n div 10 = m div 10" by blast
      have "n mod 10 = m mod 10" using d by (intro digit_inj) simp_all
      with q show ?thesis by (metis div_mult_mod_eq)
    qed
  qed
qed

lemma split_at_first:
  "a \<notin> set xs \<Longrightarrow> a \<notin> set ys \<Longrightarrow> xs @ a # r = ys @ a # r' \<Longrightarrow> xs = ys \<and> r = r'"
proof (induction xs arbitrary: ys)
  case Nil
  then show ?case by (cases ys) auto
next
  case (Cons x xs)
  then show ?case by (cases ys) auto
qed

lemma bad_path_inj:
  assumes "bad_path i p = bad_path j q"
  shows "i = j \<and> drop 1 p = drop 1 q"
proof -
  from assms have "str_nat i @ CHR '']'' # drop 1 p = str_nat j @ CHR '']'' # drop 1 q"
    by (simp add: bad_path_def)
  from split_at_first [OF str_nat_no_bracket str_nat_no_bracket this]
  show ?thesis by (auto dest: str_nat_inj)
qed

lemma json_paths_walk_prefix:
  "p \<in> set (json_paths_walk path v) \<Longrightarrow> \<exists>s. p = path @ s"
proof (induction path v arbitrary: p rule: json_paths_walk.induct)
  case (1 path kvs)
  then obtain kv where "kv \<in> set kvs" "p \<in> set (json_paths_walk (path @ ''.'' @ fst kv) (snd kv))"
    by auto
  with "1.IH" obtain s where "p = (path @ ''.'' @ fst kv) @ s" by blast
  then show ?case by simp
next
  case (2 path xs)
  show ?case
  proof (cases "p = path")
    case True
    then show ?thesis by simp
  next
    case False
    with "2.prems" obtain x where "x \<in> set xs" "p \<in> set (json_paths_walk (path @ ''[*]'') x)"
      by auto
    with "2.IH" obtain s where "p = (path @ ''[*]'') @ s" by blast
    then show ?thesis by simp
  qed
qed simp_all

lemma json_paths_to_lists_root:
  "p \<in> set (json_paths_to_lists rmi) \<Longrightarrow> p = CHR ''$'' # drop 1 p"
  using json_paths_walk_prefix [of p "''$''" rmi] by (auto simp: json_paths_to_lists_def)

lemma distinct_json_paths_to_lists: "distinct (json_paths_to_lists rmi)"
  by (simp add: json_paths_to_lists_def)

lemma count_list_map_inj:
  "(\<And>y. y \<in> set xs \<Longrightarrow> f y = f x \<Longrightarrow> y = x) \<Longrightarrow> count_list (map f xs) (f x) = count_list xs x"
  by (induction xs) auto

lemma count_list_distinct: "distinct xs \<Longrightarrow> count_list xs x = (if x \<in> set xs then 1 else 0)"
  by (induction xs) auto

lemma count_flagged_same:
  assumes "p \<in> set (json_paths_to_lists rmi)"
  shows "count_list (flagged i rmi) (bad_path i p) = (if has_duplicate_ids rmi p then 1 else 0)"
proof -
  have inj: "q = p" if "q \<in> set (filter (has_duplicate_ids rmi) (json_paths_to_lists rmi))"
    and "bad_path i q = bad_path i p" for q
  proof -
    from that(1) have "q \<in> set (json_paths_to_lists rmi)" by simp
    then have "q = CHR ''$'' # drop 1 q" by (rule json_paths_to_lists_root)
    moreover from assms have "p = CHR ''$'' # drop 1 p" by (rule json_paths_to_lists_root)
    moreover from bad_path_inj [OF that(2)] have "drop 1 q = drop 1 p" by blast
    ultimately show ?thesis by metis
  qed
  have "count_list (flagged i rmi) (bad_path i p) =
      count_list (filter (has_duplicate_ids rmi) (json_paths_to_lists rmi)) p"
    unfolding flagged_def by (rule count_list_map_inj) (rule inj)
  also have "\<dots> = (if has_duplicate_ids rmi p then 1 else 0)"
    using assms by (simp add: count_list_filter count_list_distinct distinct_json_paths_to_lists)
  finally show ?thesis .
qed

lemma count_flagged_other: "j \<noteq> i \<Longrightarrow> count_list (flagged j rmi) (bad_path i p) = 0"
  by (auto simp: flagged_def count_list_0_iff dest: bad_path_inj)

lemma count_concat_enumerate:
  "count_list (concat (map (\<lambda>(j, rmi). flagged j rmi) (enumerate n rmis))) (bad_path i p) =
     (if n \<le> i \<and> i < n + length rmis then count_list (flagged i (rmis ! (i - n))) (bad_path i p)
      else 0)"
proof (induction rmis arbitrary: n)
  case Nil
  then show ?case by simp
next
  case (Cons rmi rmis)
  show ?case
  proof (cases "n = i")
    case True
    then show ?thesis by (simp add: Cons.IH)
  next
    case False
    then have "count_list (flagged n rmi) (bad_path i p) = 0" by (rule count_flagged_other)
    with False show ?thesis by (auto simp: Cons.IH Suc_diff_le nth_Cons')
  qed
qed

lemma digit_chars:
  "char_of (48::nat) = CHR ''0''" "char_of (49::nat) = CHR ''1''" "char_of (50::nat) = CHR ''2''"
  "char_of (51::nat) = CHR ''3''" "char_of (52::nat) = CHR ''4''" "char_of (53::nat) = CHR ''5''"
  "char_of (54::nat) = CHR ''6''" "char_of (55::nat) = CHR ''7''" "char_of (56::nat) = CHR ''8''"
  "char_of (57::nat) = CHR ''9''"
  by code_simp+

lemmas eval_unique =
  unique_ids_bad_paths_def dict_get_def py_iter_def json_paths_to_lists_def find_all_def
  parse_expression_def flush_def len_set_def bad_path_def str_nat.simps digit_chars

lemma bad_paths_doc_dups:
  "unique_ids_bad_paths doc_dups =
     Inr [''ruleset_model_descriptions[0].a'', ''ruleset_model_descriptions[0].b'',
          ''ruleset_model_descriptions[1].a'']"
  by (simp add: eval_unique doc_dups_def)

lemma bad_paths_doc_unhashable: "unique_ids_bad_paths doc_unhashable = Inl TypeError"
  by (simp add: eval_unique doc_unhashable_def rmi_unhashable_def)

lemma instances_doc_dups:
  "instances doc_dups =
     [JObj [(''a'', JArr [JObj [(''id'', JStr ''x'')], JObj [(''id'', JStr ''x'')],
                          JObj [(''id'', JStr ''x'')]]),
            (''b'', JArr [JObj [(''id'', JNum 1)], JObj [(''id'', JBool True)]]),
            (''c'', JArr [JObj [(''id'', JStr ''u'')], JObj [(''id'', JStr ''v'')]])],
      JObj [(''a'', JArr [JObj [(''id'', JStr ''y'')], JObj [(''id'', JStr ''y'')]])]]"
  by (simp add: instances_def dict_get_def py_iter_def doc_dups_def)

lemma bad_paths_doc_pump: "unique_ids_bad_paths doc_pump = Inr []"
  by (simp add: eval_unique doc_pump_def)

text \<open>
  Claim C2, on the documents for which the check returns. The entries of
  \<^verbatim>\<open>bad_paths\<close> are those of the first instance, then those of the second, and so on,
  and the entries of an instance depend on the instance and its index alone. For the
  instance at index \<open>i\<close> and a list path discovered in it, the text
  \<^verbatim>\<open>ruleset_model_descriptions[i]\<close> followed by the path without its \<^verbatim>\<open>$\<close> stands
  in \<^verbatim>\<open>bad_paths\<close> exactly once when the ids found under the path hold a duplicate,
  whatever the number of duplicates, and does not stand there otherwise. Two hashable
  ids are duplicates when Python's \<^verbatim>\<open>==\<close> holds of them (\<open>py_key_eq_iff\<close>).
\<close>

theorem unique_ids_flagged_once_per_collection:
  assumes "unique_ids_bad_paths rpd = Inr bad_paths"
  shows "bad_paths = concat (map (\<lambda>(i, rmi). flagged i rmi) (enumerate 0 (instances rpd)))
    \<and> (\<forall>i < length (instances rpd). \<forall>list_path \<in> set (json_paths_to_lists (instances rpd ! i)).
          count_list bad_paths
            (''ruleset_model_descriptions['' @ str_nat i @ '']'' @ drop 1 list_path) =
          (if \<not> distinct (map py_key (found (list_path @ ''[*].id'') (instances rpd ! i)))
           then 1 else 0))
    \<and> check_unique_ids_in_ruleset_model_descriptions rpd = Inr (error_msg bad_paths)"
proof (intro conjI allI impI ballI)
  show eq: "bad_paths = concat (map (\<lambda>(i, rmi). flagged i rmi) (enumerate 0 (instances rpd)))"
    using assms by (rule unique_ids_bad_paths_flagged)
  show "check_unique_ids_in_ruleset_model_descriptions rpd = Inr (error_msg bad_paths)"
    using assms by (simp add: check_unique_ids_in_ruleset_model_descriptions_def)
  fix i list_path
  assume i: "i < length (instances rpd)"
    and p: "list_path \<in> set (json_paths_to_lists (instances rpd ! i))"
  have "count_list bad_paths (bad_path i list_path) =
      count_list (flagged i (instances rpd ! i)) (bad_path i list_path)"
    unfolding eq count_concat_enumerate using i by simp
  also have "\<dots> = (if has_duplicate_ids (instances rpd ! i) list_path then 1 else 0)"
    using p by (rule count_flagged_same)
  finally show "count_list bad_paths
            (''ruleset_model_descriptions['' @ str_nat i @ '']'' @ drop 1 list_path) =
          (if \<not> distinct (map py_key (found (list_path @ ''[*].id'') (instances rpd ! i)))
           then 1 else 0)"
    by (simp add: bad_path_def has_duplicate_ids_def)
qed

theorem unique_ids_flagged_once_per_collection_witness:
  "unique_ids_bad_paths doc_dups =
     Inr [''ruleset_model_descriptions[0].a'', ''ruleset_model_descriptions[0].b'',
          ''ruleset_model_descriptions[1].a'']
   \<and> found ''$.a[*].id'' (instances doc_dups ! 0) = [JStr ''x'', JStr ''x'', JStr ''x'']
   \<and> count_list
        [''ruleset_model_descriptions[0].a'', ''ruleset_model_descriptions[0].b'',
         ''ruleset_model_descriptions[1].a'']
        (''ruleset_model_descriptions['' @ str_nat 0 @ '']'' @ drop 1 ''$.a'') = 1"
proof -
  have ids: "found ''$.a[*].id'' (instances doc_dups ! 0) = [JStr ''x'', JStr ''x'', JStr ''x'']"
    by (simp add: instances_doc_dups found_def find_all_def parse_expression_def flush_def)
  have len: "0 < length (instances doc_dups)"
    by (simp add: instances_doc_dups)
  have mem: "''$.a'' \<in> set (json_paths_to_lists (instances doc_dups ! 0))"
    by (simp add: instances_doc_dups json_paths_to_lists_def)
  from unique_ids_flagged_once_per_collection [OF bad_paths_doc_dups] len mem
  have "count_list
        [''ruleset_model_descriptions[0].a'', ''ruleset_model_descriptions[0].b'',
         ''ruleset_model_descriptions[1].a'']
        (''ruleset_model_descriptions['' @ str_nat 0 @ '']'' @ drop 1 ''$.a'') =
      (if \<not> distinct (map py_key (found (''$.a'' @ ''[*].id'') (instances doc_dups ! 0)))
       then 1 else 0)"
    by blast
  with ids bad_paths_doc_dups show ?thesis by simp
qed

text \<open>
  Claim C2 as it is stated, for every document, fails: when an id is a list or an object,
  \<^verbatim>\<open>set(ids)\<close> raises \<^verbatim>\<open>TypeError\<close> and no path is flagged, the collection
  \<^verbatim>\<open>a\<close> with its duplicate id included.
\<close>

theorem unique_ids_raises_on_unhashable_id:
  "json_paths_to_lists rmi_unhashable = [''$.a'', ''$.b'']
   \<and> find_all ''$.a[*].id'' rmi_unhashable = Inr [JStr ''x'', JStr ''x'']
   \<and> find_all ''$.b[*].id'' rmi_unhashable = Inr [JObj [(''k'', JNum 1)]]
   \<and> unique_ids_bad_paths doc_unhashable = Inl TypeError
   \<and> check_unique_ids_in_ruleset_model_descriptions doc_unhashable = Inl TypeError"
  by (simp add: check_unique_ids_in_ruleset_model_descriptions_def bad_paths_doc_unhashable)
     (simp add: json_paths_to_lists_def find_all_def parse_expression_def flush_def
        rmi_unhashable_def)

text \<open>
  Claim C3 as it is stated fails: with three collections flagged, the check returns
  one text that lists them, not the sequence of the three paths.
\<close>

theorem unique_ids_returns_formatted_text:
  "check_unique_ids_in_ruleset_model_descriptions doc_dups =
     Inr ''Non-unique ids for paths: ruleset_model_descriptions[0].a; ruleset_model_descriptions[0].b; ruleset_model_descriptions[1].a''
   \<and> unique_ids_bad_paths doc_dups =
     Inr [''ruleset_model_descriptions[0].a'', ''ruleset_model_descriptions[0].b'',
          ''ruleset_model_descriptions[1].a'']"
  by (simp add: check_unique_ids_in_ruleset_model_descriptions_def bad_paths_doc_dups
      error_msg_def)

text \<open>
  Claim C3, amended. The check returns a single text. The text is empty exactly when no
  collection is flagged; otherwise it is \<^verbatim>\<open>Non-unique ids for paths: \<close> followed by
  the flagged paths, one per collection with a duplicate id, joined by \<^verbatim>\<open>; \<close>. The
  check raises exactly when the loops raise.
\<close>

theorem unique_ids_single_text:
  "(check_unique_ids_in_ruleset_model_descriptions rpd = Inr msg \<longrightarrow>
      (\<exists>bad_paths. unique_ids_bad_paths rpd = Inr bad_paths
         \<and> bad_paths = concat (map (\<lambda>(i, rmi). flagged i rmi) (enumerate 0 (instances rpd)))
         \<and> (msg = [] \<longleftrightarrow> bad_paths = [])
         \<and> (bad_paths \<noteq> [] \<longrightarrow> msg = ''Non-unique ids for paths: '' @ join ''; '' bad_paths)))
   \<and> (check_unique_ids_in_ruleset_model_descriptions rpd = Inl e \<longleftrightarrow>
        unique_ids_bad_paths rpd = Inl e)"
proof (intro conjI impI)
  assume "check_unique_ids_in_ruleset_model_descriptions rpd = Inr msg"
  then obtain bad_paths where b: "unique_ids_bad_paths rpd = Inr bad_paths"
    and m: "msg = error_msg bad_paths"
    by (auto simp: check_unique_ids_in_ruleset_model_descriptions_def split: sum.splits)
  from m have "(msg = [] \<longleftrightarrow> bad_paths = [])
      \<and> (bad_paths \<noteq> [] \<longrightarrow> msg = ''Non-unique ids for paths: '' @ join ''; '' bad_paths)"
    by (simp add: error_msg_def)
  with b unique_ids_bad_paths_flagged [OF b]
  show "\<exists>bad_paths. unique_ids_bad_paths rpd = Inr bad_paths
         \<and> bad_paths = concat (map (\<lambda>(i, rmi). flagged i rmi) (enumerate 0 (instances rpd)))
         \<and> (msg = [] \<longleftrightarrow> bad_paths = [])
         \<and> (bad_paths \<noteq> [] \<longrightarrow> msg = ''Non-unique ids for paths: '' @ join ''; '' bad_paths)"
    by blast
next
  show "check_unique_ids_in_ruleset_model_descriptions rpd = Inl e \<longleftrightarrow>
        unique_ids_bad_paths rpd = Inl e"
    by (simp add: check_unique_ids_in_ruleset_model_descriptions_def split: sum.splits)
qed

theorem unique_ids_single_text_witness:
  "check_unique_ids_in_ruleset_model_descriptions doc_pump = Inr []
   \<and> unique_ids_bad_paths doc_pump = Inr []
   \<and> check_unique_ids_in_ruleset_model_descriptions doc_unhashable = Inl TypeError"
  using unique_ids_single_text [of doc_pump "[]" TypeError]
    unique_ids_single_text [of doc_unhashable "[]" TypeError]
  by (simp add: check_unique_ids_in_ruleset_model_descriptions_def bad_paths_doc_pump
      bad_paths_doc_unhashable error_msg_def)


text \<open>
  Claim C10. On a document dict without the key \<^verbatim>\<open>ruleset_model_descriptions\<close> the
  unique-id check returns the empty text, its passing result, and raises nothing.
\<close>

theorem unique_ids_missing_key:
  "map_of kvs ''ruleset_model_descriptions'' = None \<Longrightarrow>
     check_unique_ids_in_ruleset_model_descriptions (JObj kvs) = Inr []"
  by (simp add: check_unique_ids_in_ruleset_model_descriptions_def unique_ids_bad_paths_def
      dict_get_def py_iter_def error_msg_def)

theorem unique_ids_missing_key_witness:
  "check_unique_ids_in_ruleset_model_descriptions (JObj [(''id'', JStr ''rpd'')]) = Inr []"
  using unique_ids_missing_key [of "[(''id'', JStr ''rpd'')]"] by simp

section \<open>\<^verbatim>\<open>validate_references\<close>\<close>

lemma fold_results_passed:
  "passed (fold_results u a b c d e f) \<longleftrightarrow> u = [] \<and> a = [] \<and> b = [] \<and> c = [] \<and> d = [] \<and> e = [] \<and> f = []"
  by (simp add: fold_results_def Let_def)

lemma fold_results_error:
  "error (fold_results u a b c d e f) =
     (let es = (if u \<noteq> [] then [[Lit u]] else []) @ (if a \<noteq> [] then [hvac_message a] else [])
          @ (if b \<noteq> [] then [zone_message b] else []) @ (if c \<noteq> [] then [fluid_loop_message c] else [])
          @ (if d \<noteq> [] then [schedule_message d] else []) @ (if e \<noteq> [] then [piping_message d] else [])
          @ (if f \<noteq> [] then [service_water_heating_message f] else [])
      in if es = [] then None else Some es)"
  by (simp add: fold_results_def Let_def)

lemma validate_references_results:
  assumes "validate_references rpd = Inr r"
  shows "\<exists>u a b c d e f. 
    check_unique_ids_in_ruleset_model_descriptions rpd = Inr u
    \<and> check_hvac_association rpd = Inr a \<and> check_zone_association rpd = Inr b
    \<and> check_fluid_loop_association rpd = Inr c \<and> check_schedule_association rpd = Inr d
    \<and> check_fluid_loop_or_piping_association rpd = Inr e
    \<and> check_service_water_heating_association rpd = Inr f
    \<and> r = fold_results u a b c d e f"
  using assms by (simp add: validate_references_def split: sum.splits)

lemma checks_doc_hvac:
  "check_zone_association doc_hvac = Inr []"
  "check_fluid_loop_association doc_hvac = Inr []"
  "check_schedule_association doc_hvac = Inr []"
  "check_fluid_loop_or_piping_association doc_hvac = Inr []"
  "check_service_water_heating_association doc_hvac = Inr []"
  by (simp_all add: check_zone_association_filter check_fluid_loop_association_filter
      check_schedule_association_filter check_fluid_loop_or_piping_association_filter
      check_service_water_heating_association_filter eval_path
      zone_id_jsonpath_def zone_reference_jsonpaths_def fluid_loop_id_jsonpaths_def
      fluid_reference_jsonpaths_def schedule_id_jsonpath_def schedule_reference_jsonpaths_def
      fluid_loop_or_piping_id_jsonpaths_def loop_or_piping_reference_jsonpath_def
      service_water_heating_id_jsonpath_def service_water_heating_reference_jsonpaths_def
      doc_hvac_def)

lemma unique_doc_hvac: "check_unique_ids_in_ruleset_model_descriptions doc_hvac = Inr []"
  by (simp add: check_unique_ids_in_ruleset_model_descriptions_def unique_ids_bad_paths_def
      dict_get_def py_iter_def json_paths_to_lists_def find_all_def parse_expression_def flush_def
      len_set_def error_msg_def doc_hvac_def)

lemmas message_defs =
  hvac_message_def zone_message_def fluid_loop_message_def schedule_message_def
  piping_message_def service_water_heating_message_def

text \<open>
  Claim C4. \<^verbatim>\<open>validate_references\<close> returns a report with \<^verbatim>\<open>passed\<close> true exactly
  when each of the seven checks returns an empty result. A report that does not pass
  carries an error list that holds, in the order of the checks, one entry for each check
  with a non-empty result and nothing else: the text of the unique-id check, and for an
  association check its sentence around the interpolated mismatch list (the piping
  sentence interpolates the mismatch list of the schedule check, as line 464 is written).
  The list has as many entries as there are checks with a non-empty result, whatever the
  number of violations of each. A report that passes carries no error list.
\<close>

theorem validate_references_aggregation:
  "((\<exists>r. validate_references rpd = Inr r \<and> passed r) \<longleftrightarrow>
      check_unique_ids_in_ruleset_model_descriptions rpd = Inr []
      \<and> check_hvac_association rpd = Inr []
      \<and> check_zone_association rpd = Inr []
      \<and> check_fluid_loop_association rpd = Inr []
      \<and> check_schedule_association rpd = Inr []
      \<and> check_fluid_loop_or_piping_association rpd = Inr []
      \<and> check_service_water_heating_association rpd = Inr [])
   \<and> (validate_references rpd = Inr r \<and> \<not> passed r \<longrightarrow>
        (\<exists>u a b c d e f es.
           check_unique_ids_in_ruleset_model_descriptions rpd = Inr u
           \<and> check_hvac_association rpd = Inr a
           \<and> check_zone_association rpd = Inr b
           \<and> check_fluid_loop_association rpd = Inr c
           \<and> check_schedule_association rpd = Inr d
           \<and> check_fluid_loop_or_piping_association rpd = Inr e
           \<and> check_service_water_heating_association rpd = Inr f
           \<and> error r = Some es
           \<and> es =
               (if u \<noteq> [] then [[Lit u]] else [])
               @ (if a \<noteq> [] then
                    [[Lit ''Cannot find HVAC systems '', Interp a,
                      Lit '' in the HeatingVentilationAirConditioningSystems data group.'']]
                  else [])
               @ (if b \<noteq> [] then
                    [[Lit ''Cannot find zones '', Interp b, Lit '' in the Zone data group.'']]
                  else [])
               @ (if c \<noteq> [] then
                    [[Lit ''Cannot find fluid loop '', Interp c,
                      Lit '' in the FluidLoop data group.'']]
                  else [])
               @ (if d \<noteq> [] then
                    [[Lit ''Cannot find schedule '', Interp d,
                      Lit '' in the Schedule data group.'']]
                  else [])
               @ (if e \<noteq> [] then
                    [[Lit ''Cannot find piping '', Interp d,
                      Lit '' in the FluidLoop or ServiceWaterHeatingDistributionSystems data group.'']]
                  else [])
               @ (if f \<noteq> [] then
                    [[Lit ''Cannot find service water heating '', Interp f,
                      Lit '' in the ServiceWaterHeatingDistributionSystems data group.'']]
                  else [])
           \<and> length es = length (filter (\<lambda>failing. failing)
               [u \<noteq> [], a \<noteq> [], b \<noteq> [], c \<noteq> [], d \<noteq> [], e \<noteq> [], f \<noteq> []])))
   \<and> (validate_references rpd = Inr r \<and> passed r \<longrightarrow> error r = None)"
proof (intro conjI impI)
  show "(\<exists>r. validate_references rpd = Inr r \<and> passed r) \<longleftrightarrow>
      check_unique_ids_in_ruleset_model_descriptions rpd = Inr []
      \<and> check_hvac_association rpd = Inr []
      \<and> check_zone_association rpd = Inr []
      \<and> check_fluid_loop_association rpd = Inr []
      \<and> check_schedule_association rpd = Inr []
      \<and> check_fluid_loop_or_piping_association rpd = Inr []
      \<and> check_service_water_heating_association rpd = Inr []"
  proof
    assume "\<exists>r. validate_references rpd = Inr r \<and> passed r"
    then obtain r where r: "validate_references rpd = Inr r" and p: "passed r" by blast
    from validate_references_results [OF r] p
    show "check_unique_ids_in_ruleset_model_descriptions rpd = Inr []
      \<and> check_hvac_association rpd = Inr []
      \<and> check_zone_association rpd = Inr []
      \<and> check_fluid_loop_association rpd = Inr []
      \<and> check_schedule_association rpd = Inr []
      \<and> check_fluid_loop_or_piping_association rpd = Inr []
      \<and> check_service_water_heating_association rpd = Inr []"
      by (auto simp: fold_results_passed)
  next
    assume "check_unique_ids_in_ruleset_model_descriptions rpd = Inr []
      \<and> check_hvac_association rpd = Inr []
      \<and> check_zone_association rpd = Inr []
      \<and> check_fluid_loop_association rpd = Inr []
      \<and> check_schedule_association rpd = Inr []
      \<and> check_fluid_loop_or_piping_association rpd = Inr []
      \<and> check_service_water_heating_association rpd = Inr []"
    then show "\<exists>r. validate_references rpd = Inr r \<and> passed r"
      by (simp add: validate_references_def fold_results_passed)
  qed
next
  assume a: "validate_references rpd = Inr r \<and> \<not> passed r"
  then have r: "validate_references rpd = Inr r" and np: "\<not> passed r" by simp_all
  from validate_references_results [OF r] obtain u a b c d e f where
    c: "check_unique_ids_in_ruleset_model_descriptions rpd = Inr u"
      "check_hvac_association rpd = Inr a" "check_zone_association rpd = Inr b"
      "check_fluid_loop_association rpd = Inr c" "check_schedule_association rpd = Inr d"
      "check_fluid_loop_or_piping_association rpd = Inr e"
      "check_service_water_heating_association rpd = Inr f"
    and rr: "r = fold_results u a b c d e f" by blast
  from np rr have ne: "\<not> (u = [] \<and> a = [] \<and> b = [] \<and> c = [] \<and> d = [] \<and> e = [] \<and> f = [])"
    by (simp add: fold_results_passed)
  define es where "es =
               (if u \<noteq> [] then [[Lit u]] else [])
               @ (if a \<noteq> [] then
                    [[Lit ''Cannot find HVAC systems '', Interp a,
                      Lit '' in the HeatingVentilationAirConditioningSystems data group.'']]
                  else [])
               @ (if b \<noteq> [] then
                    [[Lit ''Cannot find zones '', Interp b, Lit '' in the Zone data group.'']]
                  else [])
               @ (if c \<noteq> [] then
                    [[Lit ''Cannot find fluid loop '', Interp c,
                      Lit '' in the FluidLoop data group.'']]
                  else [])
               @ (if d \<noteq> [] then
                    [[Lit ''Cannot find schedule '', Interp d,
                      Lit '' in the Schedule data group.'']]
                  else [])
               @ (if e \<noteq> [] then
                    [[Lit ''Cannot find piping '', Interp d,
                      Lit '' in the FluidLoop or ServiceWaterHeatingDistributionSystems data group.'']]
                  else [])
               @ (if f \<noteq> [] then
                    [[Lit ''Cannot find service water heating '', Interp f,
                      Lit '' in the ServiceWaterHeatingDistributionSystems data group.'']]
                  else [])"
  have nonempty: "es \<noteq> []" using ne by (auto simp: es_def)
  have "error r = (if es = [] then None else Some es)"
    unfolding rr fold_results_error es_def by (simp only: Let_def message_defs)
  with nonempty have err: "error r = Some es" by simp
  have len: "length es = length (filter (\<lambda>failing. failing)
               [u \<noteq> [], a \<noteq> [], b \<noteq> [], c \<noteq> [], d \<noteq> [], e \<noteq> [], f \<noteq> []])"
    by (simp add: es_def)
  from c err len es_def
  show "\<exists>u a b c d e f es.
           check_unique_ids_in_ruleset_model_descriptions rpd = Inr u
           \<and> check_hvac_association rpd = Inr a
           \<and> check_zone_association rpd = Inr b
           \<and> check_fluid_loop_association rpd = Inr c
           \<and> check_schedule_association rpd = Inr d
           \<and> check_fluid_loop_or_piping_association rpd = Inr e
           \<and> check_service_water_heating_association rpd = Inr f
           \<and> error r = Some es
           \<and> es =
               (if u \<noteq> [] then [[Lit u]] else [])
               @ (if a \<noteq> [] then
                    [[Lit ''Cannot find HVAC systems '', Interp a,
                      Lit '' in the HeatingVentilationAirConditioningSystems data group.'']]
                  else [])
               @ (if b \<noteq> [] then
                    [[Lit ''Cannot find zones '', Interp b, Lit '' in the Zone data group.'']]
                  else [])
               @ (if c \<noteq> [] then
                    [[Lit ''Cannot find fluid loop '', Interp c,
                      Lit '' in the FluidLoop data group.'']]
                  else [])
               @ (if d \<noteq> [] then
                    [[Lit ''Cannot find schedule '', Interp d,
                      Lit '' in the Schedule data group.'']]
                  else [])
               @ (if e \<noteq> [] then
                    [[Lit ''Cannot find piping '', Interp d,
                      Lit '' in the FluidLoop or ServiceWaterHeatingDistributionSystems data group.'']]
                  else [])
               @ (if f \<noteq> [] then
                    [[Lit ''Cannot find service water heating '', Interp f,
                      Lit '' in the ServiceWaterHeatingDistributionSystems data group.'']]
                  else [])
           \<and> length es = length (filter (\<lambda>failing. failing)
               [u \<noteq> [], a \<noteq> [], b \<noteq> [], c \<noteq> [], d \<noteq> [], e \<noteq> [], f \<noteq> []])"
    by blast
next
  assume a: "validate_references rpd = Inr r \<and> passed r"
  then have r: "validate_references rpd = Inr r" and p: "passed r" by simp_all
  from validate_references_results [OF r] p show "error r = None"
    by (auto simp: fold_results_passed fold_results_error)
qed

theorem validate_references_aggregation_witness:
  "validate_references doc_hvac =
     Inr \<lparr>passed = False,
          error = Some [[Lit ''Cannot find HVAC systems '', Interp [JStr ''C'', JStr ''C''],
                         Lit '' in the HeatingVentilationAirConditioningSystems data group.'']]\<rparr>
   \<and> check_hvac_association doc_hvac = Inr [JStr ''C'', JStr ''C'']
   \<and> check_unique_ids_in_ruleset_model_descriptions doc_hvac = Inr []
   \<and> check_zone_association doc_hvac = Inr []"
  using validate_references_aggregation
    [where rpd = doc_hvac
       and r = "\<lparr>passed = False,
          error = Some [[Lit ''Cannot find HVAC systems '', Interp [JStr ''C'', JStr ''C''],
                         Lit '' in the HeatingVentilationAirConditioningSystems data group.'']]\<rparr>"]
  by (simp add: validate_references_def unique_doc_hvac checks_doc_hvac
      check_hvac_association_filter found_hvac_ids found_hvac_refs py_in_def
      fold_results_def Let_def message_defs)

lemma schedule_doc_pump: "check_schedule_association doc_pump = Inr []"
  by (simp add: check_schedule_association_filter eval_path schedule_id_jsonpath_def
      schedule_reference_jsonpaths_def doc_pump_def)

lemma piping_doc_pump: "check_fluid_loop_or_piping_association doc_pump = Inr [JStr ''L7'']"
  by (simp add: check_fluid_loop_or_piping_association_filter eval_path
      fluid_loop_or_piping_id_jsonpaths_def loop_or_piping_reference_jsonpath_def doc_pump_def)

lemma hvac_doc_pump: "check_hvac_association doc_pump = Inr []"
  by (simp add: check_hvac_association_filter eval_path hvac_id_jsonpath_def
      served_by_hvac_jsonpath_def doc_pump_def)

lemma zone_doc_pump: "check_zone_association doc_pump = Inr []"
  by (simp add: check_zone_association_filter eval_path zone_id_jsonpath_def
      zone_reference_jsonpaths_def doc_pump_def)

lemma fluid_doc_pump: "check_fluid_loop_association doc_pump = Inr []"
  by (simp add: check_fluid_loop_association_filter eval_path fluid_loop_id_jsonpaths_def
      fluid_reference_jsonpaths_def doc_pump_def)

lemma swh_doc_pump: "check_service_water_heating_association doc_pump = Inr []"
  by (simp add: check_service_water_heating_association_filter eval_path
      service_water_heating_id_jsonpath_def service_water_heating_reference_jsonpaths_def
      doc_pump_def)

lemma paths_doc_pump:
  "json_paths_to_lists (JObj
       [(''fluid_loops'', JArr [JObj [(''id'', JStr ''L1'')]]),
        (''pumps'', JArr [JObj [(''id'', JStr ''P1''), (''loop_or_piping'', JStr ''L7'')]])])
   = [''$.fluid_loops'', ''$.pumps'']"
  by (simp add: json_paths_to_lists_def)

lemma unique_doc_pump: "check_unique_ids_in_ruleset_model_descriptions doc_pump = Inr []"
  by (simp add: check_unique_ids_in_ruleset_model_descriptions_def unique_ids_bad_paths_def
      dict_get_def py_iter_def paths_doc_pump find_all_def parse_expression_def flush_def
      len_set_def error_msg_def doc_pump_def)

lemma validate_doc_pump:
  "validate_references doc_pump = Inr \<lparr>passed = False, error = Some [piping_message []]\<rparr>"
  by (simp add: validate_references_def unique_doc_pump hvac_doc_pump zone_doc_pump
      fluid_doc_pump schedule_doc_pump piping_doc_pump swh_doc_pump fold_results_def Let_def)

lemma piping_doc_pump_object_id:
  "check_fluid_loop_or_piping_association doc_pump_object_id = Inr [JStr ''L7'']"
  by (simp add: check_fluid_loop_or_piping_association_filter eval_path
      fluid_loop_or_piping_id_jsonpaths_def loop_or_piping_reference_jsonpath_def
      doc_pump_object_id_def)

lemma unique_doc_pump_object_id:
  "check_unique_ids_in_ruleset_model_descriptions doc_pump_object_id = Inl TypeError"
  by (simp add: check_unique_ids_in_ruleset_model_descriptions_def eval_unique
      doc_pump_object_id_def)

text \<open>
  Claim C5, on the documents for which \<^verbatim>\<open>validate_references\<close> returns a report.
  When the fluid-loop-or-piping check returns a non-empty mismatch list, the report does
  not pass, whatever the other checks return. The error list then holds exactly one
  entry with the piping sentence, and that entry interpolates the mismatch list of the
  schedule check; an entry that interpolates the piping mismatch list is there only when
  the two lists are the same.
\<close>

theorem piping_check_decides_but_message_reads_schedule:
  assumes "check_fluid_loop_or_piping_association rpd = Inr mismatch_fluid_loop_piping_errors"
    and "mismatch_fluid_loop_piping_errors \<noteq> []"
    and "check_schedule_association rpd = Inr mismatch_schedule_errors"
    and "validate_references rpd = Inr r"
  shows "\<not> passed r
    \<and> (\<exists>es. error r = Some es
          \<and> count_list es
              [Lit ''Cannot find piping '', Interp mismatch_schedule_errors,
               Lit '' in the FluidLoop or ServiceWaterHeatingDistributionSystems data group.''] = 1
          \<and> (mismatch_fluid_loop_piping_errors \<noteq> mismatch_schedule_errors \<longrightarrow>
                [Lit ''Cannot find piping '', Interp mismatch_fluid_loop_piping_errors,
                 Lit '' in the FluidLoop or ServiceWaterHeatingDistributionSystems data group.'']
                \<notin> set es))"
proof -
  from validate_references_results [OF assms(4)] assms(1,3) obtain u a b c f where
    rr: "r = fold_results u a b c mismatch_schedule_errors mismatch_fluid_loop_piping_errors f"
    by auto
  show ?thesis
    unfolding rr fold_results_passed fold_results_error using assms(2)
    by (simp add: Let_def message_defs)
qed

theorem piping_check_decides_but_message_reads_schedule_witness:
  "check_fluid_loop_or_piping_association doc_pump = Inr [JStr ''L7'']
   \<and> check_schedule_association doc_pump = Inr []
   \<and> validate_references doc_pump =
       Inr \<lparr>passed = False,
            error = Some [[Lit ''Cannot find piping '', Interp [],
              Lit '' in the FluidLoop or ServiceWaterHeatingDistributionSystems data group.'']]\<rparr>"
  using piping_check_decides_but_message_reads_schedule
    [where rpd = doc_pump and mismatch_fluid_loop_piping_errors = "[JStr ''L7'']"
       and mismatch_schedule_errors = "[]"
       and r = "\<lparr>passed = False,
            error = Some [[Lit ''Cannot find piping '', Interp [],
              Lit '' in the FluidLoop or ServiceWaterHeatingDistributionSystems data group.'']]\<rparr>"]
  by (simp add: piping_doc_pump schedule_doc_pump validate_doc_pump message_defs)


text \<open>
  Claim C5 as it is stated, for every document on which the piping check returns a
  non-empty list, fails: when the id of the pump is an object, the piping check returns
  the dangling \<^verbatim>\<open>L7\<close>, but the unique-id check, called first, raises
  \<^verbatim>\<open>TypeError\<close>, so that \<^verbatim>\<open>validate_references\<close> returns no report: there is
  neither a decision nor a piping entry.
\<close>

theorem piping_mismatch_without_report:
  "check_fluid_loop_or_piping_association doc_pump_object_id = Inr [JStr ''L7'']
   \<and> validate_references doc_pump_object_id = Inl TypeError"
  by (simp add: piping_doc_pump_object_id validate_references_def unique_doc_pump_object_id)

end
